theory Spec2Isabelle
  imports Complex_Main "HOL-Library.Sublist" "HOL-Library.AList" "HOL-Library.Multiset"
begin

section \<open>JavaScript values read by the command-line front end\<close>

text \<open>
  The program is \<^verbatim>\<open>src/apps/cli.ts\<close>. A JavaScript number is a double: a real number, an
  infinity or NaN. The doubles are a subset of the reals and compare as the reals do, so
  \<open>Finite r\<close> stands for the double of value \<open>r\<close> (the two zeros are one value here: both
  are falsy and compare equal).
\<close>

datatype number = NaN | Infinity | NegInfinity | Finite real

fun number_truthy :: "number \<Rightarrow> bool" where
  "number_truthy NaN = False"
| "number_truthy Infinity = True"
| "number_truthy NegInfinity = True"
| "number_truthy (Finite r) = (r \<noteq> 0)"

text \<open>The relational operators \<open><\<close> and \<open>>\<close> on numbers: every comparison with NaN is false.\<close>

fun js_lt :: "number \<Rightarrow> number \<Rightarrow> bool" where
  "js_lt NaN b = False"
| "js_lt a NaN = False"
| "js_lt a NegInfinity = False"
| "js_lt Infinity b = False"
| "js_lt NegInfinity b = True"
| "js_lt (Finite x) Infinity = True"
| "js_lt (Finite x) (Finite y) = (x < y)"

definition js_gt :: "number \<Rightarrow> number \<Rightarrow> bool" where
  "js_gt a b = js_lt b a"

text \<open>
  An option of the parsed command line is a value or \<open>undefined\<close> (\<open>None\<close>).
  \<open>truthy\<close> is the test \<open>if (v)\<close> on a string-valued option, \<open>str\<close> its rendering in a
  template literal, \<open>or_else\<close> the operator \<open>v || d\<close>; \<open>truthy_num\<close> and \<open>to_number\<close> are the
  test and the numeric reading of a number-valued option.
\<close>

definition truthy :: "string option \<Rightarrow> bool" where
  "truthy v = (case v of None \<Rightarrow> False | Some s \<Rightarrow> s \<noteq> [])"

definition str :: "string option \<Rightarrow> string" where
  "str v = (case v of None \<Rightarrow> ''undefined'' | Some s \<Rightarrow> s)"

definition or_else :: "string option \<Rightarrow> string \<Rightarrow> string" where
  "or_else v d = (if truthy v then str v else d)"

definition truthy_num :: "number option \<Rightarrow> bool" where
  "truthy_num v = (case v of None \<Rightarrow> False | Some n \<Rightarrow> number_truthy n)"

definition to_number :: "number option \<Rightarrow> number" where
  "to_number v = (case v of None \<Rightarrow> NaN | Some n \<Rightarrow> n)"

text \<open>\<open>Array.prototype.join\<close> and \<open>String.prototype.includes\<close>.\<close>

fun join :: "string \<Rightarrow> string list \<Rightarrow> string" where
  "join sep [] = []"
| "join sep [x] = x"
| "join sep (x # y # ys) = x @ sep @ join sep (y # ys)"

definition includes_str :: "string \<Rightarrow> string \<Rightarrow> bool" where
  "includes_str s needle = sublist needle s"

text \<open>
  Strings are their UTF-8 bytes. The glyphs of the program's messages that lie outside
  ASCII are named here, each by its Unicode name.
\<close>

definition NL :: string where "NL = [CHR 0x0A]"
definition BULLET :: string where "BULLET = [CHR 0xE2, CHR 0x80, CHR 0xA2]"
definition CROSS_MARK :: string where "CROSS_MARK = [CHR 0xE2, CHR 0x9D, CHR 0x8C]"
definition CHECK_MARK :: string where "CHECK_MARK = [CHR 0xE2, CHR 0x9C, CHR 0x85]"
definition WARNING_SIGN :: string where
  "WARNING_SIGN = [CHR 0xE2, CHR 0x9A, CHR 0xA0, CHR 0xEF, CHR 0xB8, CHR 0x8F]"
definition WHEEL_OF_DHARMA :: string where
  "WHEEL_OF_DHARMA = [CHR 0xE2, CHR 0x98, CHR 0xB8, CHR 0xEF, CHR 0xB8, CHR 0x8F]"
definition BOX_DOUBLE_HORIZONTAL :: string where
  "BOX_DOUBLE_HORIZONTAL = [CHR 0xE2, CHR 0x95, CHR 0x90]"
definition MAGNIFYING_GLASS :: string where
  "MAGNIFYING_GLASS = [CHR 0xF0, CHR 0x9F, CHR 0x94, CHR 0x8D]"
definition CLIPBOARD :: string where "CLIPBOARD = [CHR 0xF0, CHR 0x9F, CHR 0x93, CHR 0x8B]"
definition SPOUTING_WHALE :: string where
  "SPOUTING_WHALE = [CHR 0xF0, CHR 0x9F, CHR 0x90, CHR 0xB3]"
definition FILE_FOLDER :: string where "FILE_FOLDER = [CHR 0xF0, CHR 0x9F, CHR 0x93, CHR 0x81]"
definition HOSPITAL :: string where "HOSPITAL = [CHR 0xF0, CHR 0x9F, CHR 0x8F, CHR 0xA5]"
definition BAR_CHART :: string where "BAR_CHART = [CHR 0xF0, CHR 0x9F, CHR 0x93, CHR 0x8A]"
definition ROCKET :: string where "ROCKET = [CHR 0xF0, CHR 0x9F, CHR 0x9A, CHR 0x80]"
definition PACKAGE :: string where "PACKAGE = [CHR 0xF0, CHR 0x9F, CHR 0x93, CHR 0xA6]"
definition HOUSE_BUILDING :: string where
  "HOUSE_BUILDING = [CHR 0xF0, CHR 0x9F, CHR 0x8F, CHR 0xA0]"
definition ROBOT_FACE :: string where "ROBOT_FACE = [CHR 0xF0, CHR 0x9F, CHR 0xA4, CHR 0x96]"
definition WRENCH :: string where "WRENCH = [CHR 0xF0, CHR 0x9F, CHR 0x94, CHR 0xA7]"
definition ELECTRIC_PLUG :: string where
  "ELECTRIC_PLUG = [CHR 0xF0, CHR 0x9F, CHR 0x94, CHR 0x8C]"
definition OCTAGONAL_SIGN :: string where
  "OCTAGONAL_SIGN = [CHR 0xF0, CHR 0x9F, CHR 0x9B, CHR 0x91]"
definition LIGHT_BULB :: string where "LIGHT_BULB = [CHR 0xF0, CHR 0x9F, CHR 0x92, CHR 0xA1]"
definition HAMMER_AND_WRENCH :: string where
  "HAMMER_AND_WRENCH = [CHR 0xF0, CHR 0x9F, CHR 0x9B, CHR 0xA0, CHR 0xEF, CHR 0xB8, CHR 0x8F]"
definition ROUND_PUSHPIN :: string where
  "ROUND_PUSHPIN = [CHR 0xF0, CHR 0x9F, CHR 0x93, CHR 0x8D]"

section \<open>The process: options, outside world, effects\<close>

text \<open>
  \<open>program.opts()\<close>: the options commander parses from the command line. A flag is
  \<open>true\<close> or absent; \<open>port\<close> is what \<open>parseInt\<close> returned, when the option was given.
\<close>

record options =
  config :: "string option"
  logLevel :: "string option"
  workspace :: "string option"
  port :: "number option"
  host :: "string option"
  dev :: bool
  mock :: bool
  validate :: bool
  listTools :: bool
  healthCheck :: bool
  dockerSocket :: "string option"
  k8sNamespace :: "string option"

text \<open>
  What a \<open>throw\<close> carries: an \<open>Error\<close> object with its message and stack, or a value that
  is not an instance of \<open>Error\<close>.
\<close>

datatype thrown = Error string "string option" | Thrown_value

datatype stats = Stats (isDirectory: bool)

text \<open>The configuration object, as far as this file reads it.\<close>

record app_config =
  server_logLevel :: string
  workspace_workspaceDir :: string

text \<open>What the collaborator server returns: tool descriptors and a health report.\<close>

record tool =
  name :: string
  description :: string
  category :: "string option"

text \<open>
  The object \<open>listTools\<close> resolves to: its \<open>tools\<close> property holds an array, holds
  something else, or is missing.
\<close>

datatype tool_list = Tools_array "tool list" | Tools_not_array | No_tools_property

text \<open>
  A health report. \<open>services\<close> and \<open>metrics\<close> are the entries of the two objects in the
  order \<open>Object.entries\<close> lists them, a metric's value given as the text \<open>String(value)\<close>
  yields.
\<close>

record health =
  status :: string
  uptime :: number
  services :: "(string \<times> bool) list"
  metrics :: "(string \<times> string) list option"

text \<open>
  Everything outside \<^verbatim>\<open>cli.ts\<close>: the file system, the conversions of the JavaScript runtime
  that are not modelled here, the version in \<^verbatim>\<open>package.json\<close>, and what each collaborator
  call does (\<open>None\<close> and \<open>Inr\<close>: it returns; \<open>Some\<close> and \<open>Inl\<close>: it throws). The server's
  \<open>shutdown\<close> is asked with the number of times it was called before.
\<close>

record world =
  statSync_result :: "string \<Rightarrow> thrown + stats"
  Number_toString :: "number \<Rightarrow> string"
  String_toUpperCase :: "string \<Rightarrow> string"
  TypeError_stack :: "string option"
  version :: string
  createConfig_result :: "(string \<Rightarrow> string option) \<Rightarrow> thrown + app_config"
  logConfigSummaryIfDev_result :: "app_config \<Rightarrow> thrown option"
  execSync_result :: "string \<Rightarrow> thrown option"
  new_server_result :: "app_config \<Rightarrow> thrown option"
  initialize_result :: "thrown option"
  listTools_result :: "thrown + tool_list"
  getHealth_result :: "thrown + health"
  start_result :: "thrown option"
  shutdown_result :: "nat \<Rightarrow> thrown option"

text \<open>
  The effects of the process, in the order they happen. A logger call is recorded with its
  message (its payload object is left out).
\<close>

datatype event =
    StatSync string
  | Console_log string
  | Console_error string
  | Console_error_with string thrown
  | Logger_info string
  | Logger_error string
  | Env_write string string
  | CreateConfig
  | LogConfigSummaryIfDev
  | ExecSync string
  | Server_new
  | Server_initialize
  | Server_listTools
  | Server_getHealth
  | Server_start
  | Server_shutdown
  | Process_on string

record proc =
  env :: "string \<Rightarrow> string option"
  trace :: "event list"

text \<open>
  A statement returns, throws, or ends the process: \<open>process.exit\<close> does not return, so
  nothing after it runs, and no \<open>catch\<close> sees it.
\<close>

datatype 'a outcome = Normal 'a | Throw thrown | Exit int

type_synonym 'a m = "proc \<Rightarrow> 'a outcome \<times> proc"

definition return :: "'a \<Rightarrow> 'a m" where
  "return x = (\<lambda>s. (Normal x, s))"

definition throw :: "thrown \<Rightarrow> 'a m" where
  "throw e = (\<lambda>s. (Throw e, s))"

definition process_exit :: "int \<Rightarrow> 'a m" where
  "process_exit c = (\<lambda>s. (Exit c, s))"

definition bind :: "'a m \<Rightarrow> ('a \<Rightarrow> 'b m) \<Rightarrow> 'b m" where
  "bind f g = (\<lambda>s. case f s of
       (Normal x, s') \<Rightarrow> g x s'
     | (Throw e, s') \<Rightarrow> (Throw e, s')
     | (Exit c, s') \<Rightarrow> (Exit c, s'))"

definition try_catch :: "'a m \<Rightarrow> (thrown \<Rightarrow> 'a m) \<Rightarrow> 'a m" where
  "try_catch body handler = (\<lambda>s. case body s of
       (Throw e, s') \<Rightarrow> handler e s'
     | r \<Rightarrow> r)"

text \<open>A sequence of statements, a conditional statement, a \<open>forEach\<close>.\<close>

fun block :: "unit m list \<Rightarrow> unit m" where
  "block [] = return ()"
| "block (st # sts) = bind st (\<lambda>_. block sts)"

definition if_then :: "bool \<Rightarrow> unit m \<Rightarrow> unit m" where
  "if_then b st = (if b then st else return ())"

definition forEach :: "'a list \<Rightarrow> ('a \<Rightarrow> unit m) \<Rightarrow> unit m" where
  "forEach xs f = block (map f xs)"

definition emit :: "event \<Rightarrow> unit m" where
  "emit ev = (\<lambda>s. (Normal (), s\<lparr>trace := trace s @ [ev]\<rparr>))"

definition call :: "event \<Rightarrow> thrown + 'a \<Rightarrow> 'a m" where
  "call ev r = (\<lambda>s. (case r of Inl e \<Rightarrow> Throw e | Inr x \<Rightarrow> Normal x, s\<lparr>trace := trace s @ [ev]\<rparr>))"

definition call_void :: "event \<Rightarrow> thrown option \<Rightarrow> unit m" where
  "call_void ev r = call ev (case r of None \<Rightarrow> Inr () | Some e \<Rightarrow> Inl e)"

definition console_log :: "string \<Rightarrow> unit m" where
  "console_log line = emit (Console_log line)"

definition console_error :: "string \<Rightarrow> unit m" where
  "console_error line = emit (Console_error line)"

definition logger_info :: "string \<Rightarrow> unit m" where
  "logger_info msg = emit (Logger_info msg)"

definition logger_error :: "string \<Rightarrow> unit m" where
  "logger_error msg = emit (Logger_error msg)"

definition env_set :: "string \<Rightarrow> string \<Rightarrow> unit m" where
  "env_set k v = (\<lambda>s. (Normal (), s\<lparr>env := (env s)(k \<mapsto> v), trace := trace s @ [Env_write k v]\<rparr>))"

definition env_get :: "string \<Rightarrow> string option m" where
  "env_get k = (\<lambda>s. (Normal (env s k), s))"

definition statSync :: "world \<Rightarrow> string \<Rightarrow> stats m" where
  "statSync w path = call (StatSync path) (statSync_result w path)"

text \<open>A process starts with its environment and no effect yet.\<close>

definition start :: "(string \<Rightarrow> string option) \<Rightarrow> proc" where
  "start e = \<lparr>env = e, trace = []\<rparr>"

section \<open>validateOptions (lines 80 to 124)\<close>

record validation =
  valid :: bool
  errors :: "string list"

definition validLogLevels :: "string list" where
  "validLogLevels = [''debug'', ''info'', ''warn'', ''error'']"

definition num_str :: "world \<Rightarrow> number option \<Rightarrow> string" where
  "num_str w v = (case v of None \<Rightarrow> ''undefined'' | Some n \<Rightarrow> Number_toString w n)"

definition validateOptions :: "world \<Rightarrow> options \<Rightarrow> validation m" where
  "validateOptions w opts =
    (let errors = [];
         errors =
           (if truthy (logLevel opts) \<and> str (logLevel opts) \<notin> set validLogLevels
            then errors @ [''Invalid log level: '' @ str (logLevel opts) @
                           ''. Valid options: '' @ join '', '' validLogLevels]
            else errors);
         errors =
           (if truthy_num (port opts) \<and>
               (js_lt (to_number (port opts)) (Finite 1) \<or> js_gt (to_number (port opts)) (Finite 65535))
            then errors @ [''Invalid port: '' @ num_str w (port opts) @
                           ''. Must be between 1 and 65535'']
            else errors)
     in
     bind (if truthy (workspace opts)
           then try_catch
                  (bind (statSync w (str (workspace opts))) (\<lambda>stat.
                   return (if \<not> isDirectory stat
                           then errors @ [''Workspace path is not a directory: '' @ str (workspace opts)]
                           else errors)))
                  (\<lambda>error. return (errors @ [''Workspace directory does not exist: '' @ str (workspace opts)]))
           else return errors) (\<lambda>errors.
     bind (if \<not> mock opts \<and> truthy (dockerSocket opts)
           then try_catch
                  (bind (statSync w (str (dockerSocket opts))) (\<lambda>stat. return errors))
                  (\<lambda>error. return (errors @ [''Docker socket not found: '' @ str (dockerSocket opts) @
                                              ''. Try --mock for testing without Docker.'']))
           else return errors) (\<lambda>errors.
     bind (if truthy (config opts)
           then try_catch
                  (bind (statSync w (str (config opts))) (\<lambda>stat. return errors))
                  (\<lambda>error. return (errors @ [''Configuration file not found: '' @ str (config opts)]))
           else return errors) (\<lambda>errors.
     return \<lparr>valid = (length errors = 0), errors = errors\<rparr>))))"

section \<open>Runtime operations used by main\<close>

text \<open>
  \<open>Math.floor\<close>; the decimal digits of an array's length (a length is an integer below
  \<open>2^32\<close>, which JavaScript prints in decimal); \<open>toUpperCase\<close>, computed here on ASCII strings
  and asked of the runtime on the others; \<open>padEnd\<close>, which pads with spaces up to a length
  counted in UTF-16 code units (one for each code point, two for each code point of four
  UTF-8 bytes).
\<close>

fun Math_floor :: "number \<Rightarrow> number" where
  "Math_floor (Finite r) = Finite (of_int \<lfloor>r\<rfloor>)"
| "Math_floor n = n"

fun decimal :: "nat \<Rightarrow> string" where
  "decimal n = (if n < 10 then [''0123456789'' ! n]
                else decimal (n div 10) @ [''0123456789'' ! (n mod 10)])"

declare decimal.simps [simp del]

definition ascii_upper :: "char \<Rightarrow> char" where
  "ascii_upper c =
     (case map_of (zip ''abcdefghijklmnopqrstuvwxyz'' ''ABCDEFGHIJKLMNOPQRSTUVWXYZ'') c of
        Some u \<Rightarrow> u
      | None \<Rightarrow> c)"

definition toUpperCase :: "world \<Rightarrow> string \<Rightarrow> string" where
  "toUpperCase w s =
     (if list_all (\<lambda>c. (of_char c :: nat) < 128) s then map ascii_upper s else String_toUpperCase w s)"

definition utf16_length :: "string \<Rightarrow> nat" where
  "utf16_length s =
     length (filter (\<lambda>c. (of_char c :: nat) < 128 \<or> 192 \<le> (of_char c :: nat)) s) +
     length (filter (\<lambda>c. 240 \<le> (of_char c :: nat)) s)"

definition padEnd :: "nat \<Rightarrow> string \<Rightarrow> string" where
  "padEnd n s = s @ replicate (n - utf16_length s) CHR '' ''"

text \<open>
  A plain object \<open>{}\<close> used as a dictionary: its own properties in the order they were
  created. Reading a key that is not an own property finds what \<open>Object.prototype\<close> has
  under that name, if anything. \<open>Object.entries\<close> lists the own properties whose keys are
  array indices (canonical decimal numerals below \<open>2^32 - 1\<close>) first, in ascending numeric
  order, then the other keys in creation order.
\<close>

type_synonym 'v object = "(string \<times> 'v) list"

definition Object_prototype_keys :: "string list" where
  "Object_prototype_keys =
     [''constructor'', ''__defineGetter__'', ''__defineSetter__'', ''hasOwnProperty'',
      ''__lookupGetter__'', ''__lookupSetter__'', ''isPrototypeOf'', ''propertyIsEnumerable'',
      ''toString'', ''valueOf'', ''__proto__'', ''toLocaleString'']"

datatype 'v property = Own 'v | Inherited | Undefined

definition get_property :: "'v object \<Rightarrow> string \<Rightarrow> 'v property" where
  "get_property obj k =
     (case map_of obj k of
        Some v \<Rightarrow> Own v
      | None \<Rightarrow> if k \<in> set Object_prototype_keys then Inherited else Undefined)"

definition digits_value :: "string \<Rightarrow> nat" where
  "digits_value s = foldl (\<lambda>n c. 10 * n + (of_char c - 48)) 0 s"

definition is_array_index :: "string \<Rightarrow> bool" where
  "is_array_index s =
     (s \<noteq> [] \<and> list_all (\<lambda>c. 48 \<le> (of_char c :: nat) \<and> (of_char c :: nat) \<le> 57) s \<and>
      (s = ''0'' \<or> hd s \<noteq> CHR ''0'') \<and> digits_value s < 4294967295)"

definition Object_entries :: "'v object \<Rightarrow> (string \<times> 'v) list" where
  "Object_entries obj =
     sort_key (\<lambda>p. digits_value (fst p)) (filter (\<lambda>p. is_array_index (fst p)) obj) @
     filter (\<lambda>p. \<not> is_array_index (fst p)) obj"

fun reduce :: "('b \<Rightarrow> 'a \<Rightarrow> 'b m) \<Rightarrow> 'a list \<Rightarrow> 'b \<Rightarrow> 'b m" where
  "reduce f [] acc = return acc"
| "reduce f (x # xs) acc = bind (f acc x) (reduce f xs)"

section \<open>The collaborators' operations\<close>

definition createConfig :: "world \<Rightarrow> app_config m" where
  "createConfig w = (\<lambda>s. call CreateConfig (createConfig_result w (env s)) s)"

definition logConfigSummaryIfDev :: "world \<Rightarrow> app_config \<Rightarrow> unit m" where
  "logConfigSummaryIfDev w cfg = call_void LogConfigSummaryIfDev (logConfigSummaryIfDev_result w cfg)"

definition execSync :: "world \<Rightarrow> string \<Rightarrow> unit m" where
  "execSync w command = call_void (ExecSync command) (execSync_result w command)"

definition new_ContainerKitMCPServer :: "world \<Rightarrow> app_config \<Rightarrow> unit m" where
  "new_ContainerKitMCPServer w cfg = call_void Server_new (new_server_result w cfg)"

definition server_initialize :: "world \<Rightarrow> unit m" where
  "server_initialize w = call_void Server_initialize (initialize_result w)"

definition server_listTools :: "world \<Rightarrow> tool_list m" where
  "server_listTools w = call Server_listTools (listTools_result w)"

definition server_getHealth :: "world \<Rightarrow> health m" where
  "server_getHealth w = call Server_getHealth (getHealth_result w)"

definition server_start :: "world \<Rightarrow> unit m" where
  "server_start w = call_void Server_start (start_result w)"

definition server_shutdown :: "world \<Rightarrow> unit m" where
  "server_shutdown w =
     (\<lambda>s. call_void Server_shutdown (shutdown_result w (count_list (trace s) Server_shutdown)) s)"

definition process_on :: "string \<Rightarrow> unit m" where
  "process_on signal = emit (Process_on signal)"

section \<open>main (lines 126 to 350)\<close>

text \<open>Lines 130 to 135: the report of a failed validation.\<close>

definition report_invalid :: "validation \<Rightarrow> unit m" where
  "report_invalid validation =
     block [
       console_error (CROSS_MARK @ '' Configuration errors:''),
       forEach (errors validation) (\<lambda>error. console_error (''  '' @ BULLET @ '' '' @ error)),
       console_error (NL @ ''Use --help for usage information''),
       process_exit 1]"

text \<open>Lines 138 to 143: the options written to the environment.\<close>

definition set_environment :: "options \<Rightarrow> unit m" where
  "set_environment opts =
     block [
       if_then (truthy (logLevel opts)) (env_set ''LOG_LEVEL'' (str (logLevel opts))),
       if_then (truthy (workspace opts)) (env_set ''WORKSPACE_DIR'' (str (workspace opts))),
       if_then (truthy (dockerSocket opts)) (env_set ''DOCKER_SOCKET'' (str (dockerSocket opts))),
       if_then (truthy (k8sNamespace opts)) (env_set ''K8S_NAMESPACE'' (str (k8sNamespace opts))),
       if_then (dev opts) (env_set ''NODE_ENV'' ''development''),
       if_then (mock opts) (env_set ''MOCK_MODE'' ''true'')]"

text \<open>Lines 151 to 188: the body of \<open>if (options.validate)\<close>.\<close>

definition validate_mode :: "world \<Rightarrow> options \<Rightarrow> app_config \<Rightarrow> unit m" where
  "validate_mode w opts cfg =
     block [
       console_log (MAGNIFYING_GLASS @ '' Validating Container Kit MCP configuration...'' @ NL),
       console_log (CLIPBOARD @ '' Configuration Summary:''),
       console_log (''  '' @ BULLET @ '' Log Level: '' @ server_logLevel cfg),
       console_log (''  '' @ BULLET @ '' Workspace: '' @ workspace_workspaceDir cfg),
       bind (env_get ''DOCKER_SOCKET'') (\<lambda>v.
         console_log (''  '' @ BULLET @ '' Docker Socket: '' @ or_else v ''/var/run/docker.sock'')),
       bind (env_get ''K8S_NAMESPACE'') (\<lambda>v.
         console_log (''  '' @ BULLET @ '' K8s Namespace: '' @ or_else v ''default'')),
       bind (env_get ''MOCK_MODE'') (\<lambda>v.
         console_log (''  '' @ BULLET @ '' Mock Mode: '' @
                      (if v = Some ''true'' then ''enabled'' else ''disabled''))),
       bind (env_get ''NODE_ENV'') (\<lambda>v.
         console_log (''  '' @ BULLET @ '' Environment: '' @ or_else v ''production'')),
       if_then (\<not> mock opts) (block [
         console_log (NL @ SPOUTING_WHALE @ '' Testing Docker connection...''),
         try_catch
           (block [
              execSync w ''docker version'',
              console_log (''  '' @ CHECK_MARK @ '' Docker connection successful'')])
           (\<lambda>error. console_log (''  '' @ WARNING_SIGN @
                                  ''  Docker connection failed - consider using --mock for testing''))]),
       console_log (NL @ WHEEL_OF_DHARMA @ ''  Testing Kubernetes connection...''),
       try_catch
         (block [
            execSync w ''kubectl version --client=true'',
            console_log (''  '' @ CHECK_MARK @ '' Kubernetes client available'')])
         (\<lambda>error. console_log (''  '' @ WARNING_SIGN @
                                ''  Kubernetes client not found - kubectl not in PATH'')),
       logger_info ''Configuration validation completed'',
       console_log (NL @ CHECK_MARK @ '' Configuration validation complete!''),
       console_log (NL @ ''Next steps:''),
       console_log (''  '' @ BULLET @ '' Start server: container-kit-mcp''),
       console_log (''  '' @ BULLET @ '' List tools: container-kit-mcp --list-tools''),
       console_log (''  '' @ BULLET @ '' Health check: container-kit-mcp --health-check''),
       process_exit 0]"

text \<open>
  Lines 202 to 207: the callback of \<open>reduce\<close>, which files a tool under its category.
  Calling \<open>push\<close> on a value that has no such method throws a \<open>TypeError\<close>.
\<close>

definition TypeError :: "world \<Rightarrow> thrown" where
  "TypeError w = Error ''acc[category].push is not a function'' (TypeError_stack w)"

definition group_tool :: "world \<Rightarrow> tool list object \<Rightarrow> tool \<Rightarrow> tool list object m" where
  "group_tool w acc tool =
     (let category = or_else (category tool) ''utility'';
          acc = (if get_property acc category = Undefined then AList.update category [] acc else acc)
      in case get_property acc category of
           Own tools \<Rightarrow> return (AList.update category (tools @ [tool]) acc)
         | _ \<Rightarrow> throw (TypeError w))"

text \<open>Lines 193 to 221: the body of \<open>if (options.listTools)\<close>.\<close>

definition list_tools_mode :: "world \<Rightarrow> unit m" where
  "list_tools_mode w =
     block [
       logger_info ''Listing available tools'',
       server_initialize w,
       bind (server_listTools w) (\<lambda>toolList. block [
         console_log ''Available tools:'',
         console_log (concat (replicate 60 BOX_DOUBLE_HORIZONTAL)),
         (case toolList of
            Tools_array tools \<Rightarrow>
              bind (reduce (group_tool w) tools []) (\<lambda>toolsByCategory. block [
                forEach (Object_entries toolsByCategory) (\<lambda>(category, tools). block [
                  console_log (NL @ FILE_FOLDER @ '' '' @ toUpperCase w category),
                  forEach tools (\<lambda>tool.
                    console_log (''  '' @ BULLET @ '' '' @ padEnd 25 (name tool) @ '' '' @ description tool))]),
                console_log (NL @ ''Total: '' @ decimal (length tools) @ '' tools available'')])
          | _ \<Rightarrow> return ()),
         server_shutdown w,
         process_exit 0])]"

text \<open>Lines 223 to 249: the body of \<open>if (options.healthCheck)\<close>.\<close>

definition health_check_mode :: "world \<Rightarrow> unit m" where
  "health_check_mode w =
     block [
       logger_info ''Performing health check'',
       server_initialize w,
       bind (server_getHealth w) (\<lambda>health. block [
         console_log (HOSPITAL @ '' Health Check Results''),
         console_log (concat (replicate 40 BOX_DOUBLE_HORIZONTAL)),
         console_log (''Status: '' @ (if status health = ''healthy'' then CHECK_MARK @ '' Healthy''
                                     else CROSS_MARK @ '' Unhealthy'')),
         console_log (''Uptime: '' @ Number_toString w (Math_floor (uptime health)) @ ''s''),
         console_log (NL @ ''Services:''),
         forEach (services health) (\<lambda>(service, up).
           console_log (''  '' @ (if up then CHECK_MARK else CROSS_MARK) @ '' '' @ service)),
         (case metrics health of
            Some entries \<Rightarrow> block [
              console_log (NL @ ''Metrics:''),
              forEach entries (\<lambda>(metric, value).
                console_log (''  '' @ BAR_CHART @ '' '' @ metric @ '': '' @ value))]
          | None \<Rightarrow> return ()),
         server_shutdown w,
         process_exit (if status health = ''healthy'' then 0 else 1)])]"

text \<open>Lines 278 to 291: the signal handler \<open>shutdown\<close>.\<close>

definition shutdown :: "world \<Rightarrow> string \<Rightarrow> unit m" where
  "shutdown w signal =
     block [
       logger_info ''Shutting down'',
       console_log (NL @ OCTAGONAL_SIGN @ '' Received '' @ signal @ '', shutting down gracefully...''),
       try_catch
         (block [
            server_shutdown w,
            console_log (CHECK_MARK @ '' Shutdown complete''),
            process_exit 0])
         (\<lambda>error. block [
            logger_error ''Shutdown error'',
            emit (Console_error_with (CROSS_MARK @ '' Shutdown error:'') error),
            process_exit 1])]"

text \<open>Lines 251 to 294: the default mode, which starts the server and installs the handlers.\<close>

definition run_mode :: "world \<Rightarrow> options \<Rightarrow> app_config \<Rightarrow> unit m" where
  "run_mode w opts cfg =
     block [
       logger_info ''Starting Container Kit MCP Server'',
       console_log (ROCKET @ '' Starting Container Kit MCP Server...''),
       console_log (PACKAGE @ '' Version: '' @ version w),
       console_log (HOUSE_BUILDING @ '' Workspace: '' @ workspace_workspaceDir cfg),
       console_log (BAR_CHART @ '' Log Level: '' @ server_logLevel cfg),
       if_then (mock opts) (console_log (ROBOT_FACE @ '' Running with mock AI sampler'')),
       if_then (dev opts) (console_log (WRENCH @ '' Development mode enabled'')),
       server_start w,
       console_log (CHECK_MARK @ '' Server started successfully''),
       console_log (ELECTRIC_PLUG @ '' Listening on stdio transport''),
       process_on ''SIGTERM'',
       process_on ''SIGINT'']"

text \<open>Lines 296 to 349: the \<open>catch\<close> clause of main.\<close>

definition startup_failed :: "options \<Rightarrow> thrown \<Rightarrow> unit m" where
  "startup_failed opts error =
     block [
       logger_error ''Server startup failed'',
       console_error (CROSS_MARK @ '' Server startup failed''),
       (case error of
          Error message stack \<Rightarrow> block [
            console_error (NL @ MAGNIFYING_GLASS @ '' Error: '' @ message),
            if_then (includes_str message ''Docker'' \<or> includes_str message ''ENOENT'') (block [
              console_error (NL @ LIGHT_BULB @ '' Docker-related issue detected:''),
              console_error (''  '' @ BULLET @ '' Ensure Docker Desktop is running''),
              console_error (''  '' @ BULLET @ '' Check Docker socket path: --docker-socket <path>''),
              console_error (''  '' @ BULLET @ '' Try mock mode for testing: --mock''),
              console_error (''  '' @ BULLET @ '' Verify Docker installation: docker version'')]),
            if_then (includes_str message ''EADDRINUSE'') (block [
              console_error (NL @ LIGHT_BULB @ '' Port already in use:''),
              console_error (''  '' @ BULLET @ '' Try a different port: --port <number>''),
              console_error (''  '' @ BULLET @ '' Check running processes: lsof -i :<port>''),
              console_error (''  '' @ BULLET @ '' Use stdio transport (default) instead of HTTP'')]),
            if_then (includes_str message ''permission'' \<or> includes_str message ''EACCES'') (block [
              console_error (NL @ LIGHT_BULB @ '' Permission issue detected:''),
              console_error (''  '' @ BULLET @ '' Check file/directory permissions''),
              console_error (''  '' @ BULLET @ '' Ensure workspace is readable: --workspace <path>''),
              console_error (''  '' @ BULLET @ '' Try running with appropriate permissions'')]),
            if_then (includes_str message ''config'' \<or> includes_str message ''Config'') (block [
              console_error (NL @ LIGHT_BULB @ '' Configuration issue:''),
              console_error (''  '' @ BULLET @ '' Copy .env.example to .env''),
              console_error (''  '' @ BULLET @ '' Validate config: --validate''),
              console_error (''  '' @ BULLET @ '' Check config file path: --config <path>'')]),
            console_error (NL @ HAMMER_AND_WRENCH @ '' Troubleshooting steps:''),
            console_error ''  1. Run health check: container-kit-mcp --health-check'',
            console_error ''  2. Validate config: container-kit-mcp --validate'',
            console_error ''  3. Try mock mode: container-kit-mcp --mock'',
            console_error ''  4. Enable debug logging: --log-level debug'',
            console_error ''  5. Check the documentation: docs/TROUBLESHOOTING.md'',
            (if truthy stack \<and> dev opts
             then block [
               console_error (NL @ ROUND_PUSHPIN @ '' Stack trace (dev mode):''),
               console_error (str stack)]
             else if \<not> dev opts
             then console_error (NL @ LIGHT_BULB @ '' For detailed error information, use --dev flag'')
             else return ())]
        | Thrown_value \<Rightarrow> return ()),
       process_exit 1]"

definition main :: "world \<Rightarrow> options \<Rightarrow> unit m" where
  "main w opts =
     try_catch
       (bind (validateOptions w opts) (\<lambda>validation. block [
          if_then (\<not> valid validation) (report_invalid validation),
          set_environment opts,
          bind (createConfig w) (\<lambda>config. block [
            logConfigSummaryIfDev w config,
            if_then (validate opts) (validate_mode w opts config),
            new_ContainerKitMCPServer w config,
            if_then (listTools opts) (list_tools_mode w),
            if_then (healthCheck opts) (health_check_mode w),
            run_mode w opts config])]))
       (startup_failed opts)"

section \<open>The process after main: termination signals\<close>

text \<open>
  When main has returned the process lives on in the event loop. A termination signal
  then runs the handler that \<open>process.on\<close> registered for it; with no handler the signal
  ends the process (exit code 128 plus the signal's number). A process that has exited
  runs nothing.
\<close>

datatype signal = SIGTERM | SIGINT

fun signal_name :: "signal \<Rightarrow> string" where
  "signal_name SIGTERM = ''SIGTERM''"
| "signal_name SIGINT = ''SIGINT''"

fun signal_number :: "signal \<Rightarrow> int" where
  "signal_number SIGTERM = 15"
| "signal_number SIGINT = 2"

definition deliver :: "world \<Rightarrow> signal \<Rightarrow> unit outcome \<times> proc \<Rightarrow> unit outcome \<times> proc" where
  "deliver w sig r =
     (case r of
        (Normal u, s) \<Rightarrow>
          if Process_on (signal_name sig) \<in> set (trace s)
          then shutdown w (signal_name sig) s
          else (Exit (128 + signal_number sig), s)
      | _ \<Rightarrow> r)"

definition run :: "world \<Rightarrow> options \<Rightarrow> signal list \<Rightarrow> proc \<Rightarrow> unit outcome \<times> proc" where
  "run w opts sigs s = foldl (\<lambda>r sig. deliver w sig r) (main w opts s) sigs"

section \<open>What the program does, in closed form\<close>

text \<open>
  The definitions of this section describe the runs of the embedded program directly:
  which errors each check of \<open>validateOptions\<close> adds, which events each part of \<open>main\<close>
  appends to the trace. None of them replaces the embedding: each is proved equal to it
  (\<open>validateOptions_run\<close>, \<open>report_invalid_finish\<close>, \<open>set_environment_run\<close>,
  \<open>validate_mode_run\<close>, \<open>startup_failed_finish\<close>, \<open>run_mode_finish\<close>, \<open>shutdown_run\<close>,
  \<open>list_tools_mode_run\<close>, \<open>health_check_mode_run\<close>, \<open>main_run\<close>), and the theorems are about
  \<open>validateOptions\<close>, \<open>startup_failed\<close>, \<open>main\<close>, \<open>deliver\<close> and \<open>run\<close>.
\<close>

subsection \<open>The five checks of validateOptions\<close>

text \<open>
  The errors each check adds (none or one), and the \<open>statSync\<close> calls the last three make.
\<close>

definition logLevel_errors :: "options \<Rightarrow> string list" where
  "logLevel_errors opts =
     (if truthy (logLevel opts) \<and> str (logLevel opts) \<notin> set validLogLevels
      then [''Invalid log level: '' @ str (logLevel opts) @ ''. Valid options: debug, info, warn, error'']
      else [])"

definition port_errors :: "world \<Rightarrow> options \<Rightarrow> string list" where
  "port_errors w opts =
     (case port opts of
        None \<Rightarrow> []
      | Some n \<Rightarrow>
          if number_truthy n \<and> (js_lt n (Finite 1) \<or> js_lt (Finite 65535) n)
          then [''Invalid port: '' @ Number_toString w n @ ''. Must be between 1 and 65535'']
          else [])"

definition workspace_errors :: "world \<Rightarrow> options \<Rightarrow> string list" where
  "workspace_errors w opts =
     (if truthy (workspace opts)
      then (case statSync_result w (str (workspace opts)) of
              Inl e \<Rightarrow> [''Workspace directory does not exist: '' @ str (workspace opts)]
            | Inr st \<Rightarrow> if isDirectory st then []
                        else [''Workspace path is not a directory: '' @ str (workspace opts)])
      else [])"

definition dockerSocket_errors :: "world \<Rightarrow> options \<Rightarrow> string list" where
  "dockerSocket_errors w opts =
     (if \<not> mock opts \<and> truthy (dockerSocket opts)
      then (case statSync_result w (str (dockerSocket opts)) of
              Inl e \<Rightarrow> [''Docker socket not found: '' @ str (dockerSocket opts) @
                        ''. Try --mock for testing without Docker.'']
            | Inr st \<Rightarrow> [])
      else [])"

definition config_errors :: "world \<Rightarrow> options \<Rightarrow> string list" where
  "config_errors w opts =
     (if truthy (config opts)
      then (case statSync_result w (str (config opts)) of
              Inl e \<Rightarrow> [''Configuration file not found: '' @ str (config opts)]
            | Inr st \<Rightarrow> [])
      else [])"

definition workspace_stats :: "options \<Rightarrow> event list" where
  "workspace_stats opts = (if truthy (workspace opts) then [StatSync (str (workspace opts))] else [])"

definition dockerSocket_stats :: "options \<Rightarrow> event list" where
  "dockerSocket_stats opts =
     (if \<not> mock opts \<and> truthy (dockerSocket opts) then [StatSync (str (dockerSocket opts))] else [])"

definition config_stats :: "options \<Rightarrow> event list" where
  "config_stats opts = (if truthy (config opts) then [StatSync (str (config opts))] else [])"

definition all_errors :: "world \<Rightarrow> options \<Rightarrow> string list" where
  "all_errors w opts = logLevel_errors opts @ port_errors w opts @ workspace_errors w opts @
     dockerSocket_errors w opts @ config_errors w opts"

subsection \<open>Statements that only append events\<close>

text \<open>
  \<open>tell x evs\<close> appends the events and returns \<open>x\<close>; \<open>finish r evs\<close> appends them and ends
  with the outcome \<open>r\<close>. \<open>writes\<close> is a sequence of assignments to \<open>process.env\<close>, and
  \<open>env_writes\<close> the assignments of lines 138 to 143.
\<close>

definition tell :: "'a \<Rightarrow> event list \<Rightarrow> 'a m" where
  "tell x evs = (\<lambda>s. (Normal x, s\<lparr>trace := trace s @ evs\<rparr>))"

definition finish :: "'a outcome \<Rightarrow> event list \<Rightarrow> 'a m" where
  "finish r evs = (\<lambda>s. (r, s\<lparr>trace := trace s @ evs\<rparr>))"

fun apply_writes :: "(string \<times> string) list \<Rightarrow> (string \<Rightarrow> string option) \<Rightarrow> (string \<Rightarrow> string option)" where
  "apply_writes [] e = e"
| "apply_writes ((k, v) # ws) e = apply_writes ws (e(k \<mapsto> v))"

definition env_writes :: "options \<Rightarrow> (string \<times> string) list" where
  "env_writes opts =
     (if truthy (logLevel opts) then [(''LOG_LEVEL'', str (logLevel opts))] else []) @
     (if truthy (workspace opts) then [(''WORKSPACE_DIR'', str (workspace opts))] else []) @
     (if truthy (dockerSocket opts) then [(''DOCKER_SOCKET'', str (dockerSocket opts))] else []) @
     (if truthy (k8sNamespace opts) then [(''K8S_NAMESPACE'', str (k8sNamespace opts))] else []) @
     (if dev opts then [(''NODE_ENV'', ''development'')] else []) @
     (if mock opts then [(''MOCK_MODE'', ''true'')] else [])"

definition writes :: "(string \<times> string) list \<Rightarrow> unit m" where
  "writes ws = (\<lambda>s. (Normal (), s\<lparr>env := apply_writes ws (env s),
                                    trace := trace s @ map (\<lambda>(k, v). Env_write k v) ws\<rparr>))"

subsection \<open>The events of validate mode\<close>

text \<open>
  \<open>validate_marker\<close> is the first line validate mode prints (line 152); \<open>validate_events\<close> is
  everything the mode appends, given the environment it reads.
\<close>

definition validate_marker :: string where
  "validate_marker = MAGNIFYING_GLASS @ '' Validating Container Kit MCP configuration...'' @ NL"

definition validate_events :: "world \<Rightarrow> options \<Rightarrow> app_config \<Rightarrow> (string \<Rightarrow> string option) \<Rightarrow> event list" where
  "validate_events w opts cfg e =
     [Console_log validate_marker,
      Console_log (CLIPBOARD @ '' Configuration Summary:''),
      Console_log (''  '' @ BULLET @ '' Log Level: '' @ server_logLevel cfg),
      Console_log (''  '' @ BULLET @ '' Workspace: '' @ workspace_workspaceDir cfg),
      Console_log (''  '' @ BULLET @ '' Docker Socket: '' @ or_else (e ''DOCKER_SOCKET'') ''/var/run/docker.sock''),
      Console_log (''  '' @ BULLET @ '' K8s Namespace: '' @ or_else (e ''K8S_NAMESPACE'') ''default''),
      Console_log (''  '' @ BULLET @ '' Mock Mode: '' @
                   (if e ''MOCK_MODE'' = Some ''true'' then ''enabled'' else ''disabled'')),
      Console_log (''  '' @ BULLET @ '' Environment: '' @ or_else (e ''NODE_ENV'') ''production'')] @
     (if mock opts then []
      else [Console_log (NL @ SPOUTING_WHALE @ '' Testing Docker connection...''),
            ExecSync ''docker version'',
            (case execSync_result w ''docker version'' of
               None \<Rightarrow> Console_log (''  '' @ CHECK_MARK @ '' Docker connection successful'')
             | Some err \<Rightarrow> Console_log (''  '' @ WARNING_SIGN @
                             ''  Docker connection failed - consider using --mock for testing''))]) @
     [Console_log (NL @ WHEEL_OF_DHARMA @ ''  Testing Kubernetes connection...''),
      ExecSync ''kubectl version --client=true'',
      (case execSync_result w ''kubectl version --client=true'' of
         None \<Rightarrow> Console_log (''  '' @ CHECK_MARK @ '' Kubernetes client available'')
       | Some err \<Rightarrow> Console_log (''  '' @ WARNING_SIGN @
                       ''  Kubernetes client not found - kubectl not in PATH'')),
      Logger_info ''Configuration validation completed'',
      Console_log (NL @ CHECK_MARK @ '' Configuration validation complete!''),
      Console_log (NL @ ''Next steps:''),
      Console_log (''  '' @ BULLET @ '' Start server: container-kit-mcp''),
      Console_log (''  '' @ BULLET @ '' List tools: container-kit-mcp --list-tools''),
      Console_log (''  '' @ BULLET @ '' Health check: container-kit-mcp --health-check'')]"

subsection \<open>The error classifier\<close>

text \<open>
  The categories of the specification's ErrorClassifier, the substrings that select each,
  and the guidance block each contributes. \<open>classify\<close> lists the matching categories in the
  order the \<open>catch\<close> clause tests them; \<open>error_lines\<close> is what the clause prints for an error.
\<close>

datatype issue = DockerIssue | PortConflict | PermissionIssue | ConfigIssue

fun matches :: "issue \<Rightarrow> string \<Rightarrow> bool" where
  "matches DockerIssue msg = (sublist ''Docker'' msg \<or> sublist ''ENOENT'' msg)"
| "matches PortConflict msg = sublist ''EADDRINUSE'' msg"
| "matches PermissionIssue msg = (sublist ''permission'' msg \<or> sublist ''EACCES'' msg)"
| "matches ConfigIssue msg = (sublist ''config'' msg \<or> sublist ''Config'' msg)"

definition classify :: "string \<Rightarrow> issue list" where
  "classify msg = filter (\<lambda>c. matches c msg) [DockerIssue, PortConflict, PermissionIssue, ConfigIssue]"

fun guidance :: "issue \<Rightarrow> string list" where
  "guidance DockerIssue =
     [NL @ LIGHT_BULB @ '' Docker-related issue detected:'',
      ''  '' @ BULLET @ '' Ensure Docker Desktop is running'',
      ''  '' @ BULLET @ '' Check Docker socket path: --docker-socket <path>'',
      ''  '' @ BULLET @ '' Try mock mode for testing: --mock'',
      ''  '' @ BULLET @ '' Verify Docker installation: docker version'']"
| "guidance PortConflict =
     [NL @ LIGHT_BULB @ '' Port already in use:'',
      ''  '' @ BULLET @ '' Try a different port: --port <number>'',
      ''  '' @ BULLET @ '' Check running processes: lsof -i :<port>'',
      ''  '' @ BULLET @ '' Use stdio transport (default) instead of HTTP'']"
| "guidance PermissionIssue =
     [NL @ LIGHT_BULB @ '' Permission issue detected:'',
      ''  '' @ BULLET @ '' Check file/directory permissions'',
      ''  '' @ BULLET @ '' Ensure workspace is readable: --workspace <path>'',
      ''  '' @ BULLET @ '' Try running with appropriate permissions'']"
| "guidance ConfigIssue =
     [NL @ LIGHT_BULB @ '' Configuration issue:'',
      ''  '' @ BULLET @ '' Copy .env.example to .env'',
      ''  '' @ BULLET @ '' Validate config: --validate'',
      ''  '' @ BULLET @ '' Check config file path: --config <path>'']"

definition troubleshooting :: "string list" where
  "troubleshooting =
     [NL @ HAMMER_AND_WRENCH @ '' Troubleshooting steps:'',
      ''  1. Run health check: container-kit-mcp --health-check'',
      ''  2. Validate config: container-kit-mcp --validate'',
      ''  3. Try mock mode: container-kit-mcp --mock'',
      ''  4. Enable debug logging: --log-level debug'',
      ''  5. Check the documentation: docs/TROUBLESHOOTING.md'']"

definition stack_lines :: "options \<Rightarrow> string option \<Rightarrow> string list" where
  "stack_lines opts stack =
     (if truthy stack \<and> dev opts then [NL @ ROUND_PUSHPIN @ '' Stack trace (dev mode):'', str stack]
      else if \<not> dev opts then [NL @ LIGHT_BULB @ '' For detailed error information, use --dev flag'']
      else [])"

definition error_lines :: "options \<Rightarrow> thrown \<Rightarrow> string list" where
  "error_lines opts error =
     (case error of
        Error message stack \<Rightarrow>
          [NL @ MAGNIFYING_GLASS @ '' Error: '' @ message] @ concat (map guidance (classify message)) @
          troubleshooting @ stack_lines opts stack
      | Thrown_value \<Rightarrow> [])"

definition startup_failed_events :: "options \<Rightarrow> thrown \<Rightarrow> event list" where
  "startup_failed_events opts error =
     Logger_error ''Server startup failed'' #
     map Console_error ((CROSS_MARK @ '' Server startup failed'') # error_lines opts error)"

subsection \<open>The events of run mode and of the signal handler\<close>

definition run_banner :: "world \<Rightarrow> options \<Rightarrow> app_config \<Rightarrow> event list" where
  "run_banner w opts cfg =
     [Logger_info ''Starting Container Kit MCP Server'',
      Console_log (ROCKET @ '' Starting Container Kit MCP Server...''),
      Console_log (PACKAGE @ '' Version: '' @ version w),
      Console_log (HOUSE_BUILDING @ '' Workspace: '' @ workspace_workspaceDir cfg),
      Console_log (BAR_CHART @ '' Log Level: '' @ server_logLevel cfg)] @
     (if mock opts then [Console_log (ROBOT_FACE @ '' Running with mock AI sampler'')] else []) @
     (if dev opts then [Console_log (WRENCH @ '' Development mode enabled'')] else []) @
     [Server_start]"

definition run_started :: "event list" where
  "run_started =
     [Console_log (CHECK_MARK @ '' Server started successfully''),
      Console_log (ELECTRIC_PLUG @ '' Listening on stdio transport''),
      Process_on ''SIGTERM'',
      Process_on ''SIGINT'']"

definition shutdown_events :: "world \<Rightarrow> string \<Rightarrow> nat \<Rightarrow> event list" where
  "shutdown_events w signal n =
     [Logger_info ''Shutting down'',
      Console_log (NL @ OCTAGONAL_SIGN @ '' Received '' @ signal @ '', shutting down gracefully...''),
      Server_shutdown] @
     (case shutdown_result w n of
        None \<Rightarrow> [Console_log (CHECK_MARK @ '' Shutdown complete'')]
      | Some error \<Rightarrow> [Logger_error ''Shutdown error'',
                       Console_error_with (CROSS_MARK @ '' Shutdown error:'') error])"

subsection \<open>The tool listing\<close>

text \<open>
  \<open>groups\<close> is the object the \<open>reduce\<close> of lines 202 to 207 builds when it does not throw:
  one property for each category, created when the category is first seen, holding the
  tools of that category in the order returned. \<open>grouped\<close> is \<open>None\<close> when the \<open>reduce\<close>
  throws, which happens when a category is the name of a property of \<open>Object.prototype\<close>.
  \<open>listing\<close> is the lines printed after the header.
\<close>

definition category_of :: "tool \<Rightarrow> string" where
  "category_of t = or_else (category t) ''utility''"

fun first_seen :: "'a list \<Rightarrow> 'a list" where
  "first_seen [] = []"
| "first_seen (x # xs) = x # filter (\<lambda>y. y \<noteq> x) (first_seen xs)"

definition groups :: "tool list \<Rightarrow> tool list object" where
  "groups tools = map (\<lambda>c. (c, filter (\<lambda>t. category_of t = c) tools)) (first_seen (map category_of tools))"

definition grouped :: "tool list \<Rightarrow> tool list object option" where
  "grouped tools =
     (if list_ex (\<lambda>t. category_of t \<in> set Object_prototype_keys) tools then None else Some (groups tools))"

definition tool_line :: "tool \<Rightarrow> string" where
  "tool_line t = ''  '' @ BULLET @ '' '' @ padEnd 25 (name t) @ '' '' @ description t"

definition group_lines :: "world \<Rightarrow> string \<times> tool list \<Rightarrow> string list" where
  "group_lines w g = (NL @ FILE_FOLDER @ '' '' @ toUpperCase w (fst g)) # map tool_line (snd g)"

definition total_line :: "nat \<Rightarrow> string" where
  "total_line n = NL @ ''Total: '' @ decimal n @ '' tools available''"

definition listing :: "world \<Rightarrow> tool_list \<Rightarrow> string list option" where
  "listing w res =
     (case res of
        Tools_array tools \<Rightarrow>
          (case grouped tools of
             None \<Rightarrow> None
           | Some g \<Rightarrow> Some (concat (map (group_lines w) (Object_entries g)) @ [total_line (length tools)]))
      | _ \<Rightarrow> Some [])"

definition list_header :: "event list" where
  "list_header =
     [Logger_info ''Listing available tools'', Server_initialize, Server_listTools,
      Console_log ''Available tools:'', Console_log (concat (replicate 60 BOX_DOUBLE_HORIZONTAL))]"

subsection \<open>The health report\<close>

definition health_lines :: "world \<Rightarrow> health \<Rightarrow> string list" where
  "health_lines w h =
     [HOSPITAL @ '' Health Check Results'',
      concat (replicate 40 BOX_DOUBLE_HORIZONTAL),
      ''Status: '' @ (if status h = ''healthy'' then CHECK_MARK @ '' Healthy'' else CROSS_MARK @ '' Unhealthy''),
      ''Uptime: '' @ Number_toString w (Math_floor (uptime h)) @ ''s'',
      NL @ ''Services:''] @
     map (\<lambda>(service, up). ''  '' @ (if up then CHECK_MARK else CROSS_MARK) @ '' '' @ service) (services h) @
     (case metrics h of
        Some entries \<Rightarrow>
          (NL @ ''Metrics:'') # map (\<lambda>(metric, value). ''  '' @ BAR_CHART @ '' '' @ metric @ '': '' @ value) entries
      | None \<Rightarrow> [])"

definition health_header :: "event list" where
  "health_header = [Logger_info ''Performing health check'', Server_initialize, Server_getHealth]"

subsection \<open>The start of main\<close>

text \<open>
  The events of validation and of environment normalization, the report of a failed
  validation, and \<open>main\<close> cut into stages: \<open>modes\<close> (after the server is constructed),
  \<open>dispatch\<close> (after the configuration is built), \<open>configured\<close> (after the environment is
  written). \<open>failed\<close> is the effect of the \<open>catch\<close> clause on the outcome of the \<open>try\<close> block.
\<close>

definition stat_events :: "options \<Rightarrow> event list" where
  "stat_events opts = workspace_stats opts @ dockerSocket_stats opts @ config_stats opts"

definition env_events :: "options \<Rightarrow> event list" where
  "env_events opts = map (\<lambda>(k, v). Env_write k v) (env_writes opts)"

definition invalid_report :: "string list \<Rightarrow> event list" where
  "invalid_report errs =
     Console_error (CROSS_MARK @ '' Configuration errors:'') #
     map (\<lambda>error. Console_error (''  '' @ BULLET @ '' '' @ error)) errs @
     [Console_error (NL @ ''Use --help for usage information'')]"

definition modes :: "world \<Rightarrow> options \<Rightarrow> app_config \<Rightarrow> unit m" where
  "modes w opts cfg =
     block [
       if_then (listTools opts) (list_tools_mode w),
       if_then (healthCheck opts) (health_check_mode w),
       run_mode w opts cfg]"

definition dispatch :: "world \<Rightarrow> options \<Rightarrow> app_config \<Rightarrow> unit m" where
  "dispatch w opts cfg =
     bind (if_then (validate opts) (validate_mode w opts cfg)) (\<lambda>_.
     bind (new_ContainerKitMCPServer w cfg) (\<lambda>_. modes w opts cfg))"

definition configured :: "world \<Rightarrow> options \<Rightarrow> unit m" where
  "configured w opts =
     bind (createConfig w) (\<lambda>config.
     bind (logConfigSummaryIfDev w config) (\<lambda>_. dispatch w opts config))"

definition failed :: "options \<Rightarrow> unit outcome \<times> proc \<Rightarrow> unit outcome \<times> proc" where
  "failed opts r =
     (case r of
        (Throw e, s) \<Rightarrow> (Exit 1, s\<lparr>trace := trace s @ startup_failed_events opts e\<rparr>)
      | _ \<Rightarrow> r)"

subsection \<open>Reading errors and events\<close>

text \<open>
  An error of the Docker socket check or of the port check is recognised by the fixed text
  it starts with. \<open>validation_event\<close> holds of the events a failed validation may leave.
\<close>

definition is_dockerSocket_error :: "string \<Rightarrow> bool" where
  "is_dockerSocket_error msg = prefix ''Docker socket not found: '' msg"

definition is_port_error :: "string \<Rightarrow> bool" where
  "is_port_error msg = prefix ''Invalid port: '' msg"

fun validation_event :: "event \<Rightarrow> bool" where
  "validation_event (StatSync p) = True"
| "validation_event (Console_error l) = True"
| "validation_event ev = False"

subsection \<open>Example worlds and options\<close>

text \<open>
  A world with a workspace directory \<^verbatim>\<open>/work\<close>, a Docker socket, no other file, and
  collaborators that all succeed; the options commander yields for an empty command
  line run in that directory.
\<close>

definition example_world :: world where
  "example_world =
     \<lparr>statSync_result = (\<lambda>p. if p = ''/work'' then Inr (Stats True)
                             else if p = ''/var/run/docker.sock'' then Inr (Stats False)
                             else Inl (Error (''ENOENT: no such file or directory, stat '' @ p) None)),
      Number_toString = (\<lambda>n. case n of NaN \<Rightarrow> ''NaN'' | Infinity \<Rightarrow> ''Infinity''
                             | NegInfinity \<Rightarrow> ''-Infinity''
                             | Finite r \<Rightarrow> (if r < 0 then ''-'' else []) @ decimal (nat \<lfloor>\<bar>r\<bar>\<rfloor>)),
      String_toUpperCase = map ascii_upper,
      TypeError_stack = Some ''TypeError: acc[category].push is not a function'',
      version = ''1.0.0'',
      createConfig_result = (\<lambda>e. Inr \<lparr>server_logLevel = or_else (e ''LOG_LEVEL'') ''info'',
                                        workspace_workspaceDir = or_else (e ''WORKSPACE_DIR'') ''/''\<rparr>),
      logConfigSummaryIfDev_result = (\<lambda>cfg. None),
      execSync_result = (\<lambda>command. None),
      new_server_result = (\<lambda>cfg. None),
      initialize_result = None,
      listTools_result = Inr (Tools_array
         [\<lparr>name = ''ping'', description = ''Check the server'', category = Some ''utility''\<rparr>,
          \<lparr>name = ''build_image'', description = ''Build an image'', category = Some ''build''\<rparr>]),
      getHealth_result = Inr \<lparr>status = ''healthy'', uptime = Finite 12.5,
                              services = [(''docker'', True)], metrics = None\<rparr>,
      start_result = None,
      shutdown_result = (\<lambda>n. if n = 0 then None else Some (Error ''server is closed'' None))\<rparr>"

definition example_options :: options where
  "example_options =
     \<lparr>config = None, logLevel = Some ''info'', workspace = Some ''/work'', port = None,
      host = Some ''localhost'', dev = False, mock = False, validate = False, listTools = False,
      healthCheck = False, dockerSocket = Some ''/var/run/docker.sock'', k8sNamespace = Some ''default''\<rparr>"

text \<open>
  The options pass validation; what main has done when it reaches the modes
  (\<open>setup_events\<close>) and the environment it has written (\<open>normalized_env\<close>).
\<close>

definition passes_validation :: "world \<Rightarrow> options \<Rightarrow> bool" where
  "passes_validation w opts =
     (case fst (validateOptions w opts (start Map.empty)) of Normal v \<Rightarrow> valid v | _ \<Rightarrow> False)"

definition setup_events :: "options \<Rightarrow> event list" where
  "setup_events opts = stat_events opts @ env_events opts @ [CreateConfig, LogConfigSummaryIfDev]"

definition normalized_env :: "options \<Rightarrow> (string \<Rightarrow> string option) \<Rightarrow> (string \<Rightarrow> string option)" where
  "normalized_env opts e = apply_writes (env_writes opts) e"

definition example_config :: app_config where
  "example_config = \<lparr>server_logLevel = ''info'', workspace_workspaceDir = ''/work''\<rparr>"

definition failing_shutdown_world :: world where
  "failing_shutdown_world = example_world\<lparr>shutdown_result := (\<lambda>n. Some (Error ''close failed'' None))\<rparr>"

text \<open>
  \<open>like_example\<close>: a world that agrees with the example on everything before the modes.
  \<open>mode_options\<close>: the example options with the three mode flags set as given.
\<close>

definition like_example :: "world \<Rightarrow> bool" where
  "like_example w =
     (statSync_result w = statSync_result example_world \<and>
      createConfig_result w = createConfig_result example_world \<and>
      logConfigSummaryIfDev_result w = logConfigSummaryIfDev_result example_world \<and>
      new_server_result w = new_server_result example_world)"

definition mode_options :: "bool \<Rightarrow> bool \<Rightarrow> bool \<Rightarrow> options" where
  "mode_options a b c = example_options\<lparr>validate := a, listTools := b, healthCheck := c\<rparr>"

text \<open>
  The lines written with \<open>console.log\<close>, in order.
\<close>

definition console_lines :: "event list \<Rightarrow> string list" where
  "console_lines evs = concat (map (\<lambda>ev. case ev of Console_log l \<Rightarrow> [l] | _ \<Rightarrow> []) evs)"

definition world_without_tools :: world where
  "world_without_tools = example_world\<lparr>listTools_result := Inr No_tools_property\<rparr>"

definition world_without_tools_failing_shutdown :: world where
  "world_without_tools_failing_shutdown =
     example_world\<lparr>listTools_result := Inr No_tools_property,
                    shutdown_result := (\<lambda>n. Some (Error ''close failed'' None))\<rparr>"

definition example_tools :: "tool list" where
  "example_tools =
     [\<lparr>name = ''ping'', description = ''Check the server'', category = Some ''utility''\<rparr>,
      \<lparr>name = ''build_image'', description = ''Build an image'', category = Some ''build''\<rparr>]"

definition numbered_tools :: "tool list" where
  "numbered_tools =
     [\<lparr>name = ''scan'', description = ''Scan an image'', category = Some ''2''\<rparr>,
      \<lparr>name = ''tag'', description = ''Tag an image'', category = Some ''1''\<rparr>]"

definition world_with_numbered_tools :: world where
  "world_with_numbered_tools = example_world\<lparr>listTools_result := Inr (Tools_array numbered_tools)\<rparr>"

subsection \<open>Modes\<close>

text \<open>
  The four modes, the one the priority order selects, and the modes a trace shows were
  entered: each mode starts with a line of its own (lines 152, 194, 224 and 251 to 258).
  \<open>server_event\<close> holds of the operations on the collaborator server.
\<close>

datatype mode = Validate | ListTools | HealthCheck | Run

definition selected_mode :: "options \<Rightarrow> mode" where
  "selected_mode opts =
     (if validate opts then Validate
      else if listTools opts then ListTools
      else if healthCheck opts then HealthCheck
      else Run)"

fun mode_entry :: "event \<Rightarrow> mode list" where
  "mode_entry (Console_log l) = (if l = validate_marker then [Validate] else [])"
| "mode_entry (Logger_info msg) =
     (if msg = ''Listing available tools'' then [ListTools]
      else if msg = ''Performing health check'' then [HealthCheck]
      else if msg = ''Starting Container Kit MCP Server'' then [Run]
      else [])"
| "mode_entry ev = []"

definition modes_entered :: "event list \<Rightarrow> mode list" where
  "modes_entered evs = concat (map mode_entry evs)"

fun server_event :: "event \<Rightarrow> bool" where
  "server_event Server_new = True"
| "server_event Server_initialize = True"
| "server_event Server_listTools = True"
| "server_event Server_getHealth = True"
| "server_event Server_start = True"
| "server_event Server_shutdown = True"
| "server_event ev = False"

text \<open>
  The setup before the modes completes: \<open>createConfig\<close> and \<open>logConfigSummaryIfDev\<close> return
  and, unless validate is set, so does the server's constructor.
\<close>

definition mode_reached :: "world \<Rightarrow> options \<Rightarrow> (string \<Rightarrow> string option) \<Rightarrow> bool" where
  "mode_reached w opts e =
     (case createConfig_result w (normalized_env opts e) of
        Inl err \<Rightarrow> False
      | Inr cfg \<Rightarrow>
          logConfigSummaryIfDev_result w cfg = None \<and> (validate opts \<or> new_server_result w cfg = None))"

text \<open>
  Worlds in which \<open>createConfig\<close> throws, and in which the server's constructor throws.
\<close>

definition world_without_config :: world where
  "world_without_config =
     example_world\<lparr>createConfig_result := (\<lambda>e. Inl (Error ''Invalid configuration'' None))\<rparr>"

definition world_without_server :: world where
  "world_without_server =
     example_world\<lparr>new_server_result := (\<lambda>cfg. Some (Error ''Docker is not running'' None))\<rparr>"

text \<open>
  The invariant of a process: the server's \<open>shutdown\<close> was called at most once, and not at
  all while the process is still running.
\<close>

definition at_most_once :: "unit outcome \<times> proc \<Rightarrow> bool" where
  "at_most_once r =
     (count_list (trace (snd r)) Server_shutdown \<le> 1 \<and>
      (fst r = Normal () \<longrightarrow> count_list (trace (snd r)) Server_shutdown = 0))"

section \<open>The embedding computes the closed forms\<close>

subsection \<open>validateOptions\<close>

lemma bind_tell: "bind (tell x evs) f s = f x (s\<lparr>trace := trace s @ evs\<rparr>)"
  by (simp add: bind_def tell_def)

lemma return_run: "return x s = (Normal x, s)"
  by (simp add: return_def)

lemma stage_pure: "(if c then errs @ [m] else errs) = errs @ (if c then [m] else [])"
  by simp

lemma stage_workspace:
  "(if c then try_catch
                  (bind (statSync w p) (\<lambda>stat.
                   return (if \<not> isDirectory stat then errs @ [m1] else errs)))
                  (\<lambda>error. return (errs @ [m2]))
           else return errs) =
   tell (errs @ (if c then (case statSync_result w p of Inl e \<Rightarrow> [m2]
                            | Inr st \<Rightarrow> if isDirectory st then [] else [m1]) else []))
        (if c then [StatSync p] else [])"
  by (rule ext) (simp add: try_catch_def bind_def statSync_def call_def return_def tell_def split: sum.splits)

lemma stage_exists:
  "(if c then try_catch
                  (bind (statSync w p) (\<lambda>stat. return errs))
                  (\<lambda>error. return (errs @ [m]))
           else return errs) =
   tell (errs @ (if c then (case statSync_result w p of Inl e \<Rightarrow> [m] | Inr st \<Rightarrow> []) else []))
        (if c then [StatSync p] else [])"
  by (rule ext) (simp add: try_catch_def bind_def statSync_def call_def return_def tell_def split: sum.splits)

lemma port_errors_alt:
  "port_errors w opts =
    (if truthy_num (port opts) \<and>
               (js_lt (to_number (port opts)) (Finite 1) \<or> js_gt (to_number (port opts)) (Finite 65535))
     then [''Invalid port: '' @ num_str w (port opts) @ ''. Must be between 1 and 65535''] else [])"
  by (simp add: port_errors_def truthy_num_def to_number_def js_gt_def num_str_def split: option.splits)

lemma logLevel_errors_alt:
  "logLevel_errors opts =
     (if truthy (logLevel opts) \<and> str (logLevel opts) \<notin> set validLogLevels
      then [''Invalid log level: '' @ str (logLevel opts) @ ''. Valid options: '' @ join '', '' validLogLevels]
      else [])"
  by (simp add: logLevel_errors_def validLogLevels_def)

lemma validateOptions_run:
  "validateOptions w opts s =
     (Normal \<lparr>valid = (all_errors w opts = []), errors = all_errors w opts\<rparr>,
      s\<lparr>trace := trace s @ workspace_stats opts @ dockerSocket_stats opts @ config_stats opts\<rparr>)"
  unfolding validateOptions_def Let_def
  apply (simp only: stage_workspace stage_exists)
  apply (simp only: stage_pure bind_tell return_run append_Nil)
  apply (simp only: all_errors_def port_errors_alt logLevel_errors_alt workspace_errors_def dockerSocket_errors_def
      config_errors_def workspace_stats_def dockerSocket_stats_def config_stats_def)
  apply simp
  done

subsection \<open>Blocks of output statements\<close>

lemma tell_finish: "tell x evs = finish (Normal x) evs"
  by (simp add: tell_def finish_def)

lemma emit_tell: "emit e = tell () [e]"
  by (simp add: emit_def tell_def)

lemma output_tell:
  "console_log l = tell () [Console_log l]"
  "console_error l = tell () [Console_error l]"
  "logger_info l = tell () [Logger_info l]"
  "logger_error l = tell () [Logger_error l]"
  "process_on l = tell () [Process_on l]"
  by (simp_all add: console_log_def console_error_def logger_info_def logger_error_def process_on_def emit_tell)

lemma return_tell: "return x = tell x []"
  by (simp add: return_def tell_def)

lemma bind_tell_tell: "bind (tell x evs) (\<lambda>x. tell (f x) (g x)) = tell (f x) (evs @ g x)"
  by (rule ext) (simp add: bind_def tell_def)

lemma bind_tell_finish: "bind (tell x evs) (\<lambda>x. finish (r x) (g x)) = finish (r x) (evs @ g x)"
  by (rule ext) (simp add: bind_def tell_def finish_def)

lemma bind_finish_Exit: "bind (finish (Exit c) evs) f = finish (Exit c) evs"
  by (rule ext) (simp add: bind_def finish_def)

lemma bind_finish_Throw: "bind (finish (Throw e) evs) f = finish (Throw e) evs"
  by (rule ext) (simp add: bind_def finish_def)

lemma process_exit_finish: "process_exit c = finish (Exit c) []"
  by (simp add: process_exit_def finish_def)

lemma throw_finish: "throw e = finish (Throw e) []"
  by (simp add: throw_def finish_def)

lemma forEach_tell: "forEach xs (\<lambda>x. tell () (g x)) = tell () (concat (map g xs))"
  by (induction xs) (simp_all add: forEach_def return_tell bind_tell_tell)

lemma if_then_tell: "if_then b (tell () evs) = tell () (if b then evs else [])"
  by (simp add: if_then_def return_tell)

lemma finish_run: "finish r evs s = (r, s\<lparr>trace := trace s @ evs\<rparr>)"
  by (simp add: finish_def)

lemma tell_run: "tell x evs s = (Normal x, s\<lparr>trace := trace s @ evs\<rparr>)"
  by (simp add: tell_def)

lemma concat_map_single: "concat (map (\<lambda>x. [f x]) xs) = map f xs"
  by (induction xs) simp_all

lemmas run_simps = output_tell forEach_tell process_exit_finish throw_finish return_tell bind_tell_finish
  bind_tell_tell bind_finish_Exit bind_finish_Throw if_then_tell concat_map_single

subsection \<open>The failure report and the environment\<close>

lemma report_invalid_finish:
  "report_invalid v =
     finish (Exit 1) (Console_error (CROSS_MARK @ '' Configuration errors:'') #
        map (\<lambda>error. Console_error (''  '' @ BULLET @ '' '' @ error)) (errors v) @
        [Console_error (NL @ ''Use --help for usage information'')])"
  unfolding report_invalid_def
  by (simp add: run_simps)

lemma apply_writes_append: "apply_writes (a @ b) e = apply_writes b (apply_writes a e)"
  by (induction a arbitrary: e) auto

lemma if_then_env_set: "if_then c (env_set k v) = writes (if c then [(k, v)] else [])"
  by (rule ext) (simp add: if_then_def env_set_def writes_def return_def)

lemma bind_writes_writes: "bind (writes a) (\<lambda>_. writes b) = writes (a @ b)"
  by (rule ext) (simp add: bind_def writes_def apply_writes_append)

lemma return_writes: "return () = writes []"
  by (rule ext) (simp add: return_def writes_def)

lemma set_environment_run:
  "set_environment opts s =
     (Normal (), s\<lparr>env := apply_writes (env_writes opts) (env s),
                   trace := trace s @ map (\<lambda>(k, v). Env_write k v) (env_writes opts)\<rparr>)"
proof -
  have "set_environment opts = writes (env_writes opts)"
    unfolding set_environment_def env_writes_def
    by (simp only: block.simps if_then_env_set return_writes bind_writes_writes append_Nil2)
  then show ?thesis by (simp add: writes_def)
qed

subsection \<open>Validate mode\<close>

lemma bind_call_void:
  "bind (call_void ev r) f = (case r of None \<Rightarrow> bind (tell () [ev]) f | Some e \<Rightarrow> finish (Throw e) [ev])"
  by (rule ext) (simp add: bind_def call_void_def call_def tell_def finish_def split: option.splits)

lemma bind_call:
  "bind (call ev r) f = (case r of Inr x \<Rightarrow> bind (tell x [ev]) f | Inl e \<Rightarrow> finish (Throw e) [ev])"
  by (rule ext) (simp add: bind_def call_def tell_def finish_def split: sum.splits)

lemma try_catch_tell: "try_catch (tell x evs) h = tell x evs"
  by (rule ext) (simp add: try_catch_def tell_def)

lemma try_catch_finish_Exit: "try_catch (finish (Exit c) evs) h = finish (Exit c) evs"
  by (rule ext) (simp add: try_catch_def finish_def)

lemma try_catch_finish_Throw_tell:
  "try_catch (finish (Throw e) evs) (\<lambda>e. tell x (g e)) = tell x (evs @ g e)"
  by (rule ext) (simp add: try_catch_def finish_def tell_def)

lemma try_catch_finish_Throw_finish:
  "try_catch (finish (Throw e) evs) (\<lambda>e. finish (r e) (g e)) = finish (r e) (evs @ g e)"
  by (rule ext) (simp add: try_catch_def finish_def)

lemma probe_tell:
  "try_catch (block [execSync w c, console_log ok]) (\<lambda>error. console_log ko) =
   tell () (ExecSync c # (case execSync_result w c of None \<Rightarrow> [Console_log ok] | Some e \<Rightarrow> [Console_log ko]))"
  by (simp add: execSync_def bind_call_void run_simps try_catch_tell try_catch_finish_Throw_tell split: option.splits)

lemma bind_env_get: "bind (env_get k) f s = f (env s k) s"
  by (simp add: bind_def env_get_def)

lemma bind_tell_run: "bind (tell x evs) f s = f x (s\<lparr>trace := trace s @ evs\<rparr>)"
  by (simp add: bind_def tell_def)

lemma bind_assoc: "bind (bind m f) g = bind m (\<lambda>x. bind (f x) g)"
  by (rule ext) (simp add: bind_def split: prod.splits outcome.splits)

lemma validate_mode_run:
  "validate_mode w opts cfg s = (Exit 0, s\<lparr>trace := trace s @ validate_events w opts cfg (env s)\<rparr>)"
  unfolding validate_mode_def
  apply (simp only: probe_tell)
  apply (simp only: output_tell block.simps return_tell process_exit_finish bind_tell_tell if_then_tell bind_tell_finish bind_finish_Exit)
  apply (simp add: bind_assoc bind_tell_run bind_env_get finish_run validate_events_def validate_marker_def
      split: option.splits)
  done

subsection \<open>The catch clause\<close>

lemma if_tell: "(if b then tell x evs else tell x evs') = tell x (if b then evs else evs')"
  by simp

lemma classify_guidance:
  "concat (map guidance (classify msg)) =
     (if matches DockerIssue msg then guidance DockerIssue else []) @
     (if matches PortConflict msg then guidance PortConflict else []) @
     (if matches PermissionIssue msg then guidance PermissionIssue else []) @
     (if matches ConfigIssue msg then guidance ConfigIssue else [])"
  unfolding classify_def by (simp del: matches.simps guidance.simps)

lemma startup_failed_Error:
  "startup_failed opts (Error message stack) =
     finish (Exit 1) (startup_failed_events opts (Error message stack))"
  unfolding startup_failed_def startup_failed_events_def error_lines_def thrown.case classify_guidance
  apply (simp only: output_tell block.simps return_tell process_exit_finish if_then_tell if_tell bind_tell_tell
      bind_tell_finish bind_finish_Exit includes_str_def)
  apply (simp only: troubleshooting_def stack_lines_def guidance.simps matches.simps map_append list.map
      if_distrib [of "map Console_error"] append_Cons append_Nil append_Nil2 append_assoc)
  done

lemma startup_failed_finish:
  "startup_failed opts error = finish (Exit 1) (startup_failed_events opts error)"
proof (cases error)
  case (Error message stack)
  then show ?thesis by (simp only: startup_failed_Error)
next
  case Thrown_value
  then show ?thesis
    by (simp add: startup_failed_def startup_failed_events_def error_lines_def run_simps)
qed

subsection \<open>Run mode and the signal handler\<close>

lemma case_option_finish:
  "(case r of None \<Rightarrow> finish a evs | Some e \<Rightarrow> finish (b e) (evs' e)) =
   finish (case r of None \<Rightarrow> a | Some e \<Rightarrow> b e) (case r of None \<Rightarrow> evs | Some e \<Rightarrow> evs' e)"
  by (simp split: option.splits)

lemma run_mode_finish:
  "run_mode w opts cfg =
     finish (case start_result w of None \<Rightarrow> Normal () | Some e \<Rightarrow> Throw e)
            (run_banner w opts cfg @ (case start_result w of None \<Rightarrow> run_started | Some e \<Rightarrow> []))"
  unfolding run_mode_def server_start_def
  apply (simp only: output_tell block.simps return_tell if_then_tell bind_call_void bind_tell_tell)
  apply (cases "start_result w")
   apply (simp_all only: option.case bind_tell_finish bind_tell_tell)
   apply (simp_all only: tell_finish run_banner_def run_started_def
      append_Cons append_Nil append_Nil2 append_assoc)
  done

lemma count_list_append: "count_list (xs @ ys) x = count_list xs x + count_list ys x"
  by (induction xs) auto

lemma server_shutdown_run:
  "server_shutdown w s =
     ((case shutdown_result w (count_list (trace s) Server_shutdown) of None \<Rightarrow> Normal () | Some e \<Rightarrow> Throw e),
      s\<lparr>trace := trace s @ [Server_shutdown]\<rparr>)"
  by (simp add: server_shutdown_def call_void_def call_def split: option.splits)

lemma bind_server_shutdown:
  "bind (server_shutdown w) f s =
     (case shutdown_result w (count_list (trace s) Server_shutdown) of
        None \<Rightarrow> f () (s\<lparr>trace := trace s @ [Server_shutdown]\<rparr>)
      | Some e \<Rightarrow> (Throw e, s\<lparr>trace := trace s @ [Server_shutdown]\<rparr>))"
  by (simp add: bind_def server_shutdown_run split: option.splits)

lemma try_shutdown:
  "try_catch (bind (server_shutdown w) (\<lambda>_. finish (Exit a) evs)) (\<lambda>e. finish (Exit b) (evs' e)) s =
     (case shutdown_result w (count_list (trace s) Server_shutdown) of
        None \<Rightarrow> (Exit a, s\<lparr>trace := trace s @ Server_shutdown # evs\<rparr>)
      | Some e \<Rightarrow> (Exit b, s\<lparr>trace := trace s @ Server_shutdown # evs' e\<rparr>))"
  by (simp add: try_catch_def bind_server_shutdown finish_run split: option.splits)

lemma bind_return_unit: "bind st (\<lambda>_. return ()) = st"
  by (rule ext) (simp add: bind_def return_def split: prod.splits outcome.splits)

lemma shutdown_run:
  "shutdown w signal s =
     (Exit (case shutdown_result w (count_list (trace s) Server_shutdown) of None \<Rightarrow> 0 | Some e \<Rightarrow> 1),
      s\<lparr>trace := trace s @ shutdown_events w signal (count_list (trace s) Server_shutdown)\<rparr>)"
  unfolding shutdown_def
  apply (simp only: block.simps bind_return_unit)
  apply (simp only: output_tell emit_tell process_exit_finish bind_tell_finish
      bind_finish_Exit bind_tell_tell)
  apply (simp add: bind_tell_run try_shutdown shutdown_events_def count_list_append split: option.splits)
  done

subsection \<open>Grouping the tools\<close>

lemma set_first_seen [simp]: "set (first_seen xs) = set xs"
  by (induction xs) auto

lemma distinct_first_seen [simp]: "distinct (first_seen xs)"
  by (induction xs) auto

lemma first_seen_snoc:
  "first_seen (xs @ [x]) = (if x \<in> set xs then first_seen xs else first_seen xs @ [x])"
  by (induction xs) auto

lemma update_map_seen:
  "distinct cs \<Longrightarrow> k \<in> set cs \<Longrightarrow>
   AList.update k v (map (\<lambda>c. (c, f c)) cs) = map (\<lambda>c. (c, if c = k then v else f c)) cs"
  by (induction cs) auto

lemma update_map_new:
  "k \<notin> set cs \<Longrightarrow> AList.update k v (map (\<lambda>c. (c, f c)) cs) = map (\<lambda>c. (c, f c)) cs @ [(k, v)]"
  by (induction cs) auto

lemma map_of_groups:
  "map_of (groups ps) c =
     (if c \<in> category_of ` set ps then Some (filter (\<lambda>t. category_of t = c) ps) else None)"
  unfolding groups_def by (simp add: map_of_map_restrict restrict_map_def)

lemma groups_snoc:
  "groups (ps @ [t]) = AList.update (category_of t) (filter (\<lambda>u. category_of u = category_of t) ps @ [t]) (groups ps)"
proof (cases "category_of t \<in> category_of ` set ps")
  case True
  then show ?thesis
    unfolding groups_def
    by (simp add: first_seen_snoc update_map_seen)
next
  case False
  then have "\<forall>u \<in> set ps. category_of u \<noteq> category_of t"
    by (metis imageI)
  then have "filter (\<lambda>u. category_of u = category_of t) ps = []"
    by (simp add: filter_empty_conv)
  with False show ?thesis
    unfolding groups_def
    by (auto simp: first_seen_snoc update_map_new)
qed

lemma update_update_same: "AList.update k v (AList.update k u al) = AList.update k v al"
  by (induction al) auto

lemma group_tool_ok:
  assumes "category_of t \<notin> set Object_prototype_keys"
  shows "group_tool w (groups ps) t = return (groups (ps @ [t]))"
proof (cases "category_of t \<in> category_of ` set ps")
  case True
  then show ?thesis
    by (simp add: group_tool_def Let_def get_property_def map_of_groups groups_snoc category_of_def [symmetric])
next
  case False
  then have "\<forall>u \<in> set ps. category_of u \<noteq> category_of t"
    by (metis imageI)
  then have "filter (\<lambda>u. category_of u = category_of t) ps = []"
    by (simp add: filter_empty_conv)
  with False assms show ?thesis
    by (simp add: group_tool_def Let_def get_property_def map_of_groups groups_snoc update_update_same
        AList.update_conv' category_of_def [symmetric])
qed

lemma group_tool_inherited:
  assumes "category_of t \<in> set Object_prototype_keys"
    and "\<forall>u \<in> set ps. category_of u \<notin> set Object_prototype_keys"
  shows "group_tool w (groups ps) t = throw (TypeError w)"
proof -
  from assms have "category_of t \<notin> category_of ` set ps" by auto
  with assms(1) show ?thesis
    by (simp add: group_tool_def Let_def get_property_def map_of_groups category_of_def [symmetric])
qed

lemma bind_return: "bind (return x) f = f x"
  by (rule ext) (simp add: bind_def return_def)

lemma bind_throw: "bind (throw e) f = throw e"
  by (rule ext) (simp add: bind_def throw_def)

lemma reduce_group_tool:
  assumes "\<forall>u \<in> set ps. category_of u \<notin> set Object_prototype_keys"
  shows "reduce (group_tool w) ts (groups ps) =
           (if list_ex (\<lambda>t. category_of t \<in> set Object_prototype_keys) ts then throw (TypeError w)
            else return (groups (ps @ ts)))"
  using assms
proof (induction ts arbitrary: ps)
  case Nil
  then show ?case by simp
next
  case (Cons t ts)
  show ?case
  proof (cases "category_of t \<in> set Object_prototype_keys")
    case True
    with Cons.prems show ?thesis
      by (simp add: group_tool_inherited bind_throw)
  next
    case False
    with Cons.prems have "\<forall>u \<in> set (ps @ [t]). category_of u \<notin> set Object_prototype_keys"
      by auto
    from Cons.IH [OF this] False show ?thesis
      by (simp add: group_tool_ok bind_return)
  qed
qed

lemma reduce_grouped:
  "reduce (group_tool w) tools [] = (case grouped tools of None \<Rightarrow> throw (TypeError w) | Some g \<Rightarrow> return g)"
  using reduce_group_tool [of "[]" w tools] by (simp add: grouped_def groups_def)

lemma forEach_tell_prod:
  "forEach xs (\<lambda>(a, b). tell () (g a b)) = tell () (concat (map (\<lambda>(a, b). g a b) xs))"
  using forEach_tell [of xs "\<lambda>p. g (fst p) (snd p)"] by (simp add: split_def)

lemma render_groups:
  "block [
     forEach (Object_entries g) (\<lambda>(category, tools). block [
       console_log (NL @ FILE_FOLDER @ '' '' @ toUpperCase w category),
       forEach tools (\<lambda>tool.
         console_log (''  '' @ BULLET @ '' '' @ padEnd 25 (name tool) @ '' '' @ description tool))]),
     console_log (NL @ ''Total: '' @ decimal n @ '' tools available'')] =
   tell () (map Console_log (concat (map (group_lines w) (Object_entries g)) @ [total_line n]))"
proof -
  have "(\<lambda>(a, b). Console_log (NL @ FILE_FOLDER @ '' '' @ toUpperCase w a) #
            map (\<lambda>tool. Console_log (''  '' @ BULLET @ '' '' @ padEnd 25 (name tool) @ '' '' @ description tool)) b) =
        (\<lambda>p. map Console_log (group_lines w p))"
    by (simp add: fun_eq_iff group_lines_def tool_line_def comp_def)
  then show ?thesis
    apply (simp only: block.simps bind_return_unit)
    apply (simp only: output_tell forEach_tell concat_map_single bind_tell_tell forEach_tell_prod)
    apply (simp add: total_line_def map_concat comp_def)
    done
qed

lemma count_list_map_Console_log [simp]: "count_list (map Console_log ls) Server_shutdown = 0"
  by (induction ls) auto

lemma bind_process_exit_run: "bind (process_exit c) f s = (Exit c, s)"
  by (simp add: bind_def process_exit_def)

lemma list_tools_mode_run:
  "list_tools_mode w s =
     (case initialize_result w of
        Some e \<Rightarrow> (Throw e, s\<lparr>trace := trace s @ take 2 list_header\<rparr>)
      | None \<Rightarrow>
         (case listTools_result w of
            Inl e \<Rightarrow> (Throw e, s\<lparr>trace := trace s @ take 3 list_header\<rparr>)
          | Inr res \<Rightarrow>
             (case listing w res of
                None \<Rightarrow> (Throw (TypeError w), s\<lparr>trace := trace s @ list_header\<rparr>)
              | Some ls \<Rightarrow>
                 ((case shutdown_result w (count_list (trace s) Server_shutdown) of
                     None \<Rightarrow> Exit 0 | Some e \<Rightarrow> Throw e),
                  s\<lparr>trace := trace s @ list_header @ map Console_log ls @ [Server_shutdown]\<rparr>))))"
proof -
  show ?thesis
  proof (cases "initialize_result w")
    case (Some e)
    then show ?thesis
      unfolding list_tools_mode_def server_initialize_def
      apply (simp only: block.simps bind_return_unit)
      apply (simp add: output_tell bind_call_void bind_tell_finish finish_run list_header_def)
      done
  next
    case None
    show ?thesis
    proof (cases "listTools_result w")
      case (Inl e)
      with None show ?thesis
        unfolding list_tools_mode_def server_initialize_def server_listTools_def
        apply (simp only: block.simps bind_return_unit)
        apply (simp add: output_tell bind_call_void bind_call bind_tell_finish bind_tell_tell finish_run list_header_def)
        done
    next
      case (Inr res)
      have pre: "list_tools_mode w s =
        block [
         console_log ''Available tools:'',
         console_log (concat (replicate 60 BOX_DOUBLE_HORIZONTAL)),
         (case res of
            Tools_array tools \<Rightarrow>
              bind (reduce (group_tool w) tools []) (\<lambda>toolsByCategory. block [
                forEach (Object_entries toolsByCategory) (\<lambda>(category, tools). block [
                  console_log (NL @ FILE_FOLDER @ '' '' @ toUpperCase w category),
                  forEach tools (\<lambda>tool.
                    console_log (''  '' @ BULLET @ '' '' @ padEnd 25 (name tool) @ '' '' @ description tool))]),
                console_log (NL @ ''Total: '' @ decimal (length tools) @ '' tools available'')])
          | _ \<Rightarrow> return ()),
         server_shutdown w,
         process_exit 0] (s\<lparr>trace := trace s @ take 3 list_header\<rparr>)"
        using None Inr
        unfolding list_tools_mode_def server_initialize_def server_listTools_def
        apply (simp only: block.simps bind_return_unit)
        apply (simp add: output_tell bind_call_void bind_call bind_tell_run list_header_def)
        done
      have mid: "(case res of
            Tools_array tools \<Rightarrow>
              bind (reduce (group_tool w) tools []) (\<lambda>toolsByCategory. block [
                forEach (Object_entries toolsByCategory) (\<lambda>(category, tools). block [
                  console_log (NL @ FILE_FOLDER @ '' '' @ toUpperCase w category),
                  forEach tools (\<lambda>tool.
                    console_log (''  '' @ BULLET @ '' '' @ padEnd 25 (name tool) @ '' '' @ description tool))]),
                console_log (NL @ ''Total: '' @ decimal (length tools) @ '' tools available'')])
          | _ \<Rightarrow> return ()) =
          (case listing w res of None \<Rightarrow> finish (Throw (TypeError w)) [] | Some ls \<Rightarrow> tell () (map Console_log ls))"
      proof (cases res)
        case (Tools_array tools)
        show ?thesis
          unfolding Tools_array tool_list.case render_groups reduce_grouped listing_def
          by (cases "grouped tools") (simp_all only: option.case bind_return throw_finish bind_finish_Throw)
      qed (simp_all add: listing_def return_tell)
      show ?thesis
      proof (cases "listing w res")
        case Nothing: None
        show ?thesis
          unfolding pre mid Nothing option.case
          apply (simp only: block.simps bind_return_unit output_tell bind_tell_finish bind_finish_Throw bind_tell_tell)
          using None Inr Nothing
          apply (simp add: finish_run list_header_def)
          done
      next
        case (Some ls)
        show ?thesis
          unfolding pre mid Some option.case
          apply (simp only: block.simps output_tell)
          using None Inr Some
          apply (simp add: bind_tell_run bind_server_shutdown bind_process_exit_run count_list_append
              list_header_def split: option.splits)
          done
      qed
    qed
  qed
qed

subsection \<open>Health-check mode\<close>

lemma health_report_tell:
  "block [
         console_log (HOSPITAL @ '' Health Check Results''),
         console_log (concat (replicate 40 BOX_DOUBLE_HORIZONTAL)),
         console_log (''Status: '' @ (if status h = ''healthy'' then CHECK_MARK @ '' Healthy''
                                     else CROSS_MARK @ '' Unhealthy'')),
         console_log (''Uptime: '' @ Number_toString w (Math_floor (uptime h)) @ ''s''),
         console_log (NL @ ''Services:''),
         forEach (services h) (\<lambda>(service, up).
           console_log (''  '' @ (if up then CHECK_MARK else CROSS_MARK) @ '' '' @ service)),
         (case metrics h of
            Some entries \<Rightarrow> block [
              console_log (NL @ ''Metrics:''),
              forEach entries (\<lambda>(metric, value).
                console_log (''  '' @ BAR_CHART @ '' '' @ metric @ '': '' @ value))]
          | None \<Rightarrow> return ())] = tell () (map Console_log (health_lines w h))"
proof -
  have m: "(case metrics h of
            Some entries \<Rightarrow> block [
              console_log (NL @ ''Metrics:''),
              forEach entries (\<lambda>(metric, value).
                console_log (''  '' @ BAR_CHART @ '' '' @ metric @ '': '' @ value))]
          | None \<Rightarrow> return ()) =
        tell () (map Console_log (case metrics h of
        Some entries \<Rightarrow>
          (NL @ ''Metrics:'') # map (\<lambda>(metric, value). ''  '' @ BAR_CHART @ '' '' @ metric @ '': '' @ value) entries
      | None \<Rightarrow> []))"
    apply (cases "metrics h")
     apply (simp_all only: option.case block.simps bind_return_unit)
     apply (simp_all only: output_tell forEach_tell_prod bind_tell_tell return_tell)
    apply (simp_all add: split_def concat_map_single comp_def)
    done
  show ?thesis
    unfolding m
    apply (simp only: block.simps bind_return_unit)
    apply (simp only: output_tell forEach_tell_prod bind_tell_tell)
    apply (simp add: health_lines_def split_def concat_map_single comp_def)
    done
qed

lemma health_check_mode_run:
  "health_check_mode w s =
     (case initialize_result w of
        Some e \<Rightarrow> (Throw e, s\<lparr>trace := trace s @ take 2 health_header\<rparr>)
      | None \<Rightarrow>
         (case getHealth_result w of
            Inl e \<Rightarrow> (Throw e, s\<lparr>trace := trace s @ health_header\<rparr>)
          | Inr h \<Rightarrow>
              ((case shutdown_result w (count_list (trace s) Server_shutdown) of
                  None \<Rightarrow> Exit (if status h = ''healthy'' then 0 else 1) | Some e \<Rightarrow> Throw e),
               s\<lparr>trace := trace s @ health_header @ map Console_log (health_lines w h) @ [Server_shutdown]\<rparr>)))"
proof -
  have body: "\<And>h. block [
         console_log (HOSPITAL @ '' Health Check Results''),
         console_log (concat (replicate 40 BOX_DOUBLE_HORIZONTAL)),
         console_log (''Status: '' @ (if status h = ''healthy'' then CHECK_MARK @ '' Healthy''
                                     else CROSS_MARK @ '' Unhealthy'')),
         console_log (''Uptime: '' @ Number_toString w (Math_floor (uptime h)) @ ''s''),
         console_log (NL @ ''Services:''),
         forEach (services h) (\<lambda>(service, up).
           console_log (''  '' @ (if up then CHECK_MARK else CROSS_MARK) @ '' '' @ service)),
         (case metrics h of
            Some entries \<Rightarrow> block [
              console_log (NL @ ''Metrics:''),
              forEach entries (\<lambda>(metric, value).
                console_log (''  '' @ BAR_CHART @ '' '' @ metric @ '': '' @ value))]
          | None \<Rightarrow> return ()),
         server_shutdown w,
         process_exit (if status h = ''healthy'' then 0 else 1)] =
       bind (tell () (map Console_log (health_lines w h))) (\<lambda>_. bind (server_shutdown w) (\<lambda>_.
         process_exit (if status h = ''healthy'' then 0 else 1)))"
    apply (subst health_report_tell [symmetric])
    apply (simp only: block.simps bind_return_unit bind_assoc)
    done
  show ?thesis
    unfolding health_check_mode_def body server_initialize_def server_getHealth_def
    apply (simp only: block.simps bind_return_unit)
    apply (simp add: output_tell bind_call_void bind_call bind_tell_run bind_tell_finish finish_run
        bind_server_shutdown process_exit_def count_list_append health_header_def
        split: option.splits sum.splits)
    done
qed

subsection \<open>main\<close>

lemma try_catch_failed: "try_catch body (startup_failed opts) s = failed opts (body s)"
  by (simp add: try_catch_def failed_def startup_failed_finish finish_run split: prod.splits outcome.splits)

lemma bind_not_Normal: "\<forall>x. fst (st s) \<noteq> Normal x \<Longrightarrow> bind st f s = st s"
  by (cases "st s") (auto simp: bind_def split: outcome.splits)

lemma list_tools_mode_ends: "fst (list_tools_mode w s) \<noteq> Normal x"
  by (simp add: list_tools_mode_run split: option.splits sum.splits)

lemma health_check_mode_ends: "fst (health_check_mode w s) \<noteq> Normal x"
  by (simp add: health_check_mode_run split: option.splits sum.splits)

lemma modes_run:
  "modes w opts cfg s =
     (if listTools opts then list_tools_mode w s
      else if healthCheck opts then health_check_mode w s
      else run_mode w opts cfg s)"
  unfolding modes_def
  apply (simp only: block.simps bind_return_unit)
  apply (simp add: if_then_def bind_return bind_not_Normal list_tools_mode_ends health_check_mode_ends)
  done

lemma dispatch_run:
  "dispatch w opts cfg s =
     (if validate opts then (Exit 0, s\<lparr>trace := trace s @ validate_events w opts cfg (env s)\<rparr>)
      else (case new_server_result w cfg of
              Some e \<Rightarrow> (Throw e, s\<lparr>trace := trace s @ [Server_new]\<rparr>)
            | None \<Rightarrow> modes w opts cfg (s\<lparr>trace := trace s @ [Server_new]\<rparr>)))"
  unfolding dispatch_def new_ContainerKitMCPServer_def
  by (simp add: if_then_def bind_return bind_not_Normal validate_mode_run bind_call_void bind_tell_run finish_run
      split: option.splits)

lemma configured_run:
  "configured w opts s =
     (case createConfig_result w (env s) of
        Inl e \<Rightarrow> (Throw e, s\<lparr>trace := trace s @ [CreateConfig]\<rparr>)
      | Inr cfg \<Rightarrow>
          (case logConfigSummaryIfDev_result w cfg of
             Some e \<Rightarrow> (Throw e, s\<lparr>trace := trace s @ [CreateConfig, LogConfigSummaryIfDev]\<rparr>)
           | None \<Rightarrow> dispatch w opts cfg (s\<lparr>trace := trace s @ [CreateConfig, LogConfigSummaryIfDev]\<rparr>)))"
  unfolding configured_def createConfig_def logConfigSummaryIfDev_def
  by (simp add: bind_def call_void_def call_def split: option.splits sum.splits)

lemma bind_run: "f s = (Normal x, s') \<Longrightarrow> bind f g s = g x s'"
  by (simp add: bind_def)

lemma main_configured: "main w opts =
   try_catch
       (bind (validateOptions w opts) (\<lambda>validation.
          bind (if_then (\<not> valid validation) (report_invalid validation)) (\<lambda>_.
          bind (set_environment opts) (\<lambda>_. configured w opts))))
       (startup_failed opts)"
  unfolding main_def configured_def dispatch_def modes_def
  by (simp only: block.simps bind_return_unit)

lemma main_run:
  "main w opts s =
     (if all_errors w opts \<noteq> []
      then (Exit 1, s\<lparr>trace := trace s @ stat_events opts @ invalid_report (all_errors w opts)\<rparr>)
      else failed opts (configured w opts
             (s\<lparr>env := apply_writes (env_writes opts) (env s),
                trace := trace s @ stat_events opts @ env_events opts\<rparr>)))"
proof (cases "all_errors w opts = []")
  case True
  then show ?thesis
    unfolding main_configured try_catch_failed
    by (simp add: bind_run [OF validateOptions_run] if_then_def bind_return bind_run [OF set_environment_run]
        stat_events_def env_events_def)
next
  case False
  then show ?thesis
    unfolding main_configured try_catch_failed
    by (simp add: bind_run [OF validateOptions_run] if_then_def report_invalid_finish bind_finish_Exit
        finish_run failed_def stat_events_def invalid_report_def)
qed

section \<open>Option validation\<close>

lemma truthy_Some [simp]: "truthy (Some s) = (s \<noteq> [])" "truthy None = False"
  by (simp_all add: truthy_def)

lemma str_Some [simp]: "str (Some s) = s"
  by (simp add: str_def)

lemma example_errors:
  "all_errors example_world example_options = []"
  by (simp add: all_errors_def logLevel_errors_def port_errors_def workspace_errors_def dockerSocket_errors_def
      config_errors_def example_world_def example_options_def validLogLevels_def)

text \<open>
  Claim C6. \<open>validateOptions\<close> is total and accumulating. For every option set, every
  world (so every state of the file system) and every process state it returns a result:
  it neither throws nor exits, a failing \<open>statSync\<close> becoming an error entry, and it leaves
  only its \<open>statSync\<close> calls in the trace. The errors are those of the five checks (log
  level, port, workspace, Docker socket, configuration file) in this order, each check
  adding its own whatever the others found. \<open>valid\<close> is true exactly when the error list
  is empty.
\<close>

theorem validateOptions_total_accumulating:
  "\<exists>v. validateOptions w opts s = (Normal v, s\<lparr>trace := trace s @ stat_events opts\<rparr>) \<and>
       errors v = logLevel_errors opts @ port_errors w opts @ workspace_errors w opts @
                  dockerSocket_errors w opts @ config_errors w opts \<and>
       valid v = (errors v = [])"
  by (simp add: validateOptions_run all_errors_def stat_events_def)

theorem validateOptions_total_accumulating_witness:
  "\<exists>v. validateOptions example_world
          (example_options\<lparr>logLevel := Some ''loud'', port := Some (Finite 70000), workspace := Some ''/nowhere'',
             dockerSocket := Some ''/no.sock'', config := Some ''/no.env''\<rparr>) (start Map.empty) =
          (Normal v, \<lparr>env = Map.empty, trace = [StatSync ''/nowhere'', StatSync ''/no.sock'', StatSync ''/no.env'']\<rparr>) \<and>
       errors v =
         [''Invalid log level: loud. Valid options: debug, info, warn, error'',
          ''Invalid port: 70000. Must be between 1 and 65535'',
          ''Workspace directory does not exist: /nowhere'',
          ''Docker socket not found: /no.sock. Try --mock for testing without Docker.'',
          ''Configuration file not found: /no.env''] \<and>
       valid v = False"
  using validateOptions_total_accumulating [of example_world
          "example_options\<lparr>logLevel := Some ''loud'', port := Some (Finite 70000), workspace := Some ''/nowhere'',
             dockerSocket := Some ''/no.sock'', config := Some ''/no.env''\<rparr>" "start Map.empty"]
  by (auto simp: logLevel_errors_def port_errors_def workspace_errors_def dockerSocket_errors_def
      config_errors_def example_world_def example_options_def validLogLevels_def stat_events_def
      workspace_stats_def dockerSocket_stats_def config_stats_def start_def decimal.simps)

lemma not_dockerSocket_error:
  "\<not> is_dockerSocket_error (''Invalid log level: '' @ x)"
  "\<not> is_dockerSocket_error (''Invalid port: '' @ x)"
  "\<not> is_dockerSocket_error (''Workspace path is not a directory: '' @ x)"
  "\<not> is_dockerSocket_error (''Workspace directory does not exist: '' @ x)"
  "\<not> is_dockerSocket_error (''Configuration file not found: '' @ x)"
  by (simp_all add: is_dockerSocket_error_def)

lemma no_docker_error_logLevel: "filter is_dockerSocket_error (logLevel_errors opts) = []"
  using not_dockerSocket_error(1) [of "str (logLevel opts) @ ''. Valid options: debug, info, warn, error''"]
  by (simp add: logLevel_errors_def del: append.simps)

lemma no_docker_error_port: "filter is_dockerSocket_error (port_errors w opts) = []"
  by (cases "port opts") (simp_all add: port_errors_def not_dockerSocket_error del: append.simps)

lemma no_docker_error_workspace: "filter is_dockerSocket_error (workspace_errors w opts) = []"
  by (cases "truthy (workspace opts)"; cases "statSync_result w (str (workspace opts))")
    (simp_all add: workspace_errors_def not_dockerSocket_error del: append.simps)

lemma no_docker_error_config: "filter is_dockerSocket_error (config_errors w opts) = []"
  by (cases "truthy (config opts)"; cases "statSync_result w (str (config opts))")
    (simp_all add: config_errors_def not_dockerSocket_error del: append.simps)

lemmas no_docker_error = no_docker_error_logLevel no_docker_error_port no_docker_error_workspace
  no_docker_error_config

text \<open>
  Claim C5. With \<open>mock\<close> set, \<open>validateOptions\<close> makes no \<open>statSync\<close> call for the Docker
  socket (its calls are those of the workspace and of the configuration file), the
  Docker socket check adds nothing to the errors, and no error is a Docker socket error,
  whatever the file system holds. With \<open>mock\<close> unset, a Docker socket path given and a
  \<open>statSync\<close> that fails on it, the path is checked and exactly one error is a Docker
  socket error.
\<close>

theorem mock_skips_docker_socket:
  "(mock opts \<longrightarrow>
      (\<exists>v. validateOptions w opts s =
             (Normal v, s\<lparr>trace := trace s @ workspace_stats opts @ config_stats opts\<rparr>) \<and>
           errors v = logLevel_errors opts @ port_errors w opts @ workspace_errors w opts @ config_errors w opts \<and>
           filter is_dockerSocket_error (errors v) = [])) \<and>
   (\<not> mock opts \<and> truthy (dockerSocket opts) \<and> statSync_result w (str (dockerSocket opts)) = Inl e \<longrightarrow>
      (\<exists>v s'. validateOptions w opts s = (Normal v, s') \<and>
           StatSync (str (dockerSocket opts)) \<in> set (trace s') \<and>
           filter is_dockerSocket_error (errors v) =
             [''Docker socket not found: '' @ str (dockerSocket opts) @
              ''. Try --mock for testing without Docker.'']))"
  by (simp add: validateOptions_run all_errors_def no_docker_error dockerSocket_errors_def
      dockerSocket_stats_def is_dockerSocket_error_def)

theorem mock_skips_docker_socket_witness:
  "(mock (example_options\<lparr>mock := True, dockerSocket := Some ''/no.sock''\<rparr>) \<and>
    statSync_result example_world ''/no.sock'' = Inl (Error ''ENOENT: no such file or directory, stat /no.sock'' None) \<and>
    validateOptions example_world (example_options\<lparr>mock := True, dockerSocket := Some ''/no.sock''\<rparr>)
         (start Map.empty) =
      (Normal \<lparr>valid = True, errors = []\<rparr>, \<lparr>env = Map.empty, trace = [StatSync ''/work'']\<rparr>)) \<and>
   (\<not> mock (example_options\<lparr>dockerSocket := Some ''/no.sock''\<rparr>) \<and>
    fst (validateOptions example_world (example_options\<lparr>dockerSocket := Some ''/no.sock''\<rparr>) (start Map.empty)) =
      Normal \<lparr>valid = False,
              errors = [''Docker socket not found: /no.sock. Try --mock for testing without Docker.'']\<rparr>)"
  using mock_skips_docker_socket [of "example_options\<lparr>mock := True, dockerSocket := Some ''/no.sock''\<rparr>"
          example_world "start Map.empty"]
        mock_skips_docker_socket [of "example_options\<lparr>dockerSocket := Some ''/no.sock''\<rparr>"
          example_world "start Map.empty" "Error ''ENOENT: no such file or directory, stat /no.sock'' None"]
  by (auto simp: logLevel_errors_def port_errors_def workspace_errors_def dockerSocket_errors_def
      config_errors_def example_world_def example_options_def validLogLevels_def
      workspace_stats_def dockerSocket_stats_def config_stats_def start_def validateOptions_run all_errors_def)

lemma not_port_error:
  "\<not> is_port_error (''Invalid log level: '' @ x)"
  "\<not> is_port_error (''Docker socket not found: '' @ x)"
  "\<not> is_port_error (''Workspace path is not a directory: '' @ x)"
  "\<not> is_port_error (''Workspace directory does not exist: '' @ x)"
  "\<not> is_port_error (''Configuration file not found: '' @ x)"
  by (simp_all add: is_port_error_def)

lemma no_port_error_logLevel: "filter is_port_error (logLevel_errors opts) = []"
  using not_port_error(1) [of "str (logLevel opts) @ ''. Valid options: debug, info, warn, error''"]
  by (simp add: logLevel_errors_def del: append.simps)

lemma no_port_error_workspace: "filter is_port_error (workspace_errors w opts) = []"
  by (cases "truthy (workspace opts)"; cases "statSync_result w (str (workspace opts))")
    (simp_all add: workspace_errors_def not_port_error del: append.simps)

lemma no_port_error_dockerSocket: "filter is_port_error (dockerSocket_errors w opts) = []"
  by (cases "mock opts"; cases "truthy (dockerSocket opts)"; cases "statSync_result w (str (dockerSocket opts))")
    (simp_all add: dockerSocket_errors_def not_port_error del: append.simps)

lemma no_port_error_config: "filter is_port_error (config_errors w opts) = []"
  by (cases "truthy (config opts)"; cases "statSync_result w (str (config opts))")
    (simp_all add: config_errors_def not_port_error del: append.simps)

lemmas no_port_error = no_port_error_logLevel no_port_error_workspace no_port_error_dockerSocket
  no_port_error_config

text \<open>
  What holds of the port check: a port that is given, is neither zero nor NaN, and lies
  outside the range yields exactly one port error.
\<close>

lemma port_out_of_range_rejected:
  assumes "port opts = Some n" and "number_truthy n" and "js_lt n (Finite 1) \<or> js_lt (Finite 65535) n"
  shows "\<exists>v s'. validateOptions w opts s = (Normal v, s') \<and> \<not> valid v \<and>
           filter is_port_error (errors v) =
             [''Invalid port: '' @ Number_toString w n @ ''. Must be between 1 and 65535'']"
  using assms
  by (simp add: validateOptions_run all_errors_def no_port_error port_errors_def is_port_error_def)

text \<open>
  Claim C4 says that every port given outside 1 to 65535, port 0 included, fails validation
  with exactly one port error. The source guards the range test with \<open>opts.port &&\<close>, and
  0 is falsy: with port 0 and every other option valid, \<open>validateOptions\<close> returns
  \<open>valid = true\<close> and no error, against the claim and against the source's own message
  \<^verbatim>\<open>Must be between 1 and 65535\<close>.
\<close>

theorem port_zero_accepted:
  "validateOptions example_world (example_options\<lparr>port := Some (Finite 0)\<rparr>) (start Map.empty) =
     (Normal \<lparr>valid = True, errors = []\<rparr>,
      \<lparr>env = Map.empty, trace = [StatSync ''/work'', StatSync ''/var/run/docker.sock'']\<rparr>)"
  by (simp add: validateOptions_run all_errors_def logLevel_errors_def port_errors_def workspace_errors_def
      dockerSocket_errors_def config_errors_def example_world_def example_options_def validLogLevels_def
      workspace_stats_def dockerSocket_stats_def config_stats_def start_def)

section \<open>Failed validation\<close>

lemma list_all_validation_event:
  "list_all validation_event (stat_events opts @ invalid_report errs)"
  by (auto simp: stat_events_def workspace_stats_def dockerSocket_stats_def config_stats_def invalid_report_def
      list_all_iff)

text \<open>
  Claim C9. When \<open>validateOptions\<close> returns an invalid result, \<open>main\<close> ends the process with
  exit code 1. All it has added to the trace is the \<open>statSync\<close> calls of the validation and
  the report of the errors on \<open>console.error\<close>: every added event is a \<open>StatSync\<close> or a
  \<open>Console_error\<close>, so there is no write to the environment, no \<open>createConfig\<close> and no
  operation on the collaborator server. The environment is the one \<open>main\<close> started with.
\<close>

theorem invalid_options_exit_before_environment:
  assumes "validateOptions w opts s = (Normal v, s1)" and "\<not> valid v"
  shows "main w opts s = (Exit 1, s\<lparr>trace := trace s @ stat_events opts @ invalid_report (errors v)\<rparr>) \<and>
         env (snd (main w opts s)) = env s \<and>
         list_all validation_event (stat_events opts @ invalid_report (errors v))"
proof -
  from assms have "v = \<lparr>valid = (all_errors w opts = []), errors = all_errors w opts\<rparr>"
    by (simp add: validateOptions_run)
  with assms(2) have "all_errors w opts \<noteq> []" and "errors v = all_errors w opts"
    by simp_all
  then show ?thesis
    using list_all_validation_event [of opts "errors v"]
    by (simp add: main_run)
qed

theorem invalid_options_exit_before_environment_witness:
  "main example_world (example_options\<lparr>workspace := Some ''/nowhere'', mock := True\<rparr>)
     (start [''PATH'' \<mapsto> ''/usr/bin'']) =
   (Exit 1, \<lparr>env = [''PATH'' \<mapsto> ''/usr/bin''],
             trace = [StatSync ''/nowhere'',
                      Console_error (CROSS_MARK @ '' Configuration errors:''),
                      Console_error (''  '' @ BULLET @ '' Workspace directory does not exist: /nowhere''),
                      Console_error (NL @ ''Use --help for usage information'')]\<rparr>)"
proof -
  have run: "validateOptions example_world (example_options\<lparr>workspace := Some ''/nowhere'', mock := True\<rparr>)
      (start [''PATH'' \<mapsto> ''/usr/bin'']) =
     (Normal \<lparr>valid = False, errors = [''Workspace directory does not exist: /nowhere'']\<rparr>,
      \<lparr>env = [''PATH'' \<mapsto> ''/usr/bin''], trace = [StatSync ''/nowhere'']\<rparr>)"
    by (simp add: validateOptions_run all_errors_def logLevel_errors_def port_errors_def workspace_errors_def
      dockerSocket_errors_def config_errors_def example_world_def example_options_def validLogLevels_def
      workspace_stats_def dockerSocket_stats_def config_stats_def start_def)
  show ?thesis
    using invalid_options_exit_before_environment [OF run]
    by (simp add: stat_events_def workspace_stats_def dockerSocket_stats_def config_stats_def
        invalid_report_def example_options_def start_def)
qed

section \<open>Error classification\<close>

lemma classify_examples:
  "classify ''EADDRINUSE: port 3000'' = [PortConflict]"
  "classify ''Docker config permission EADDRINUSE'' = [DockerIssue, PortConflict, PermissionIssue, ConfigIssue]"
  by (simp_all add: classify_def sublist_Cons_right)

text \<open>
  Claim C8. For an \<open>Error\<close> with message \<open>msg\<close> the \<open>catch\<close> clause prints, between the error
  line and the troubleshooting steps, the guidance blocks of the categories \<open>classify msg\<close>
  and no other. A category is in \<open>classify msg\<close> exactly when \<open>msg\<close> contains one of its
  substrings, independently of the other categories. The message
  \<^verbatim>\<open>EADDRINUSE: port 3000\<close> matches PortConflict alone, and one message can match all four
  categories.
\<close>

theorem error_classification_by_substring:
  "startup_failed opts (Error msg stack) s =
     (Exit 1, s\<lparr>trace := trace s @
        Logger_error ''Server startup failed'' #
        map Console_error
          ([CROSS_MARK @ '' Server startup failed'', NL @ MAGNIFYING_GLASS @ '' Error: '' @ msg] @
           concat (map guidance (classify msg)) @ troubleshooting @ stack_lines opts stack)\<rparr>) \<and>
   classify msg = filter (\<lambda>c. matches c msg) [DockerIssue, PortConflict, PermissionIssue, ConfigIssue] \<and>
   (matches DockerIssue msg \<longleftrightarrow>
      (\<exists>ps ss. msg = ps @ ''Docker'' @ ss) \<or> (\<exists>ps ss. msg = ps @ ''ENOENT'' @ ss)) \<and>
   (matches PortConflict msg \<longleftrightarrow> (\<exists>ps ss. msg = ps @ ''EADDRINUSE'' @ ss)) \<and>
   (matches PermissionIssue msg \<longleftrightarrow>
      (\<exists>ps ss. msg = ps @ ''permission'' @ ss) \<or> (\<exists>ps ss. msg = ps @ ''EACCES'' @ ss)) \<and>
   (matches ConfigIssue msg \<longleftrightarrow>
      (\<exists>ps ss. msg = ps @ ''config'' @ ss) \<or> (\<exists>ps ss. msg = ps @ ''Config'' @ ss)) \<and>
   classify ''EADDRINUSE: port 3000'' = [PortConflict] \<and>
   classify ''Docker config permission EADDRINUSE'' =
     [DockerIssue, PortConflict, PermissionIssue, ConfigIssue]"
proof -
  have "startup_failed opts (Error msg stack) s =
     (Exit 1, s\<lparr>trace := trace s @ startup_failed_events opts (Error msg stack)\<rparr>)"
    by (simp add: startup_failed_finish finish_run)
  moreover have "classify msg =
      filter (\<lambda>c. matches c msg) [DockerIssue, PortConflict, PermissionIssue, ConfigIssue]"
    by (simp only: classify_def)
  ultimately show ?thesis
    by (simp add: startup_failed_events_def error_lines_def classify_examples sublist_def
        del: filter.simps)
qed

theorem error_classification_by_substring_witness:
  "startup_failed example_options (Error ''EADDRINUSE: port 3000'' None) (start Map.empty) =
     (Exit 1, \<lparr>env = Map.empty, trace =
        [Logger_error ''Server startup failed'',
         Console_error (CROSS_MARK @ '' Server startup failed''),
         Console_error (NL @ MAGNIFYING_GLASS @ '' Error: EADDRINUSE: port 3000''),
         Console_error (NL @ LIGHT_BULB @ '' Port already in use:''),
         Console_error (''  '' @ BULLET @ '' Try a different port: --port <number>''),
         Console_error (''  '' @ BULLET @ '' Check running processes: lsof -i :<port>''),
         Console_error (''  '' @ BULLET @ '' Use stdio transport (default) instead of HTTP''),
         Console_error (NL @ HAMMER_AND_WRENCH @ '' Troubleshooting steps:''),
         Console_error ''  1. Run health check: container-kit-mcp --health-check'',
         Console_error ''  2. Validate config: container-kit-mcp --validate'',
         Console_error ''  3. Try mock mode: container-kit-mcp --mock'',
         Console_error ''  4. Enable debug logging: --log-level debug'',
         Console_error ''  5. Check the documentation: docs/TROUBLESHOOTING.md'',
         Console_error (NL @ LIGHT_BULB @ '' For detailed error information, use --dev flag'')]\<rparr>)"
  using error_classification_by_substring [of example_options "''EADDRINUSE: port 3000''" None "start Map.empty",
      THEN conjunct1]
  by (simp add: classify_examples troubleshooting_def stack_lines_def example_options_def start_def)

section \<open>Runs that reach the modes\<close>

lemma passes_validation_iff: "passes_validation w opts \<longleftrightarrow> all_errors w opts = []"
  by (simp add: passes_validation_def validateOptions_run)

lemma main_dispatch:
  assumes "passes_validation w opts"
    and "createConfig_result w (normalized_env opts e) = Inr cfg"
    and "logConfigSummaryIfDev_result w cfg = None"
  shows "main w opts (start e) =
           failed opts (dispatch w opts cfg \<lparr>env = normalized_env opts e, trace = setup_events opts\<rparr>)"
  using assms
  by (simp add: main_run passes_validation_iff configured_run start_def setup_events_def normalized_env_def)

lemma main_modes:
  assumes "passes_validation w opts"
    and "createConfig_result w (normalized_env opts e) = Inr cfg"
    and "logConfigSummaryIfDev_result w cfg = None"
    and "\<not> validate opts"
    and "new_server_result w cfg = None"
  shows "main w opts (start e) =
           failed opts (modes w opts cfg \<lparr>env = normalized_env opts e, trace = setup_events opts @ [Server_new]\<rparr>)"
  using assms by (simp add: main_dispatch dispatch_run)

lemma count_setup_events [simp]: "count_list (setup_events opts) Server_shutdown = 0"
  by (simp add: setup_events_def stat_events_def env_events_def workspace_stats_def dockerSocket_stats_def
      config_stats_def count_list_0_iff image_iff split_def)

lemma example_setup:
  assumes "like_example w"
  shows "passes_validation w (mode_options a b c)"
    and "createConfig_result w (normalized_env (mode_options a b c) Map.empty) = Inr example_config"
    and "logConfigSummaryIfDev_result w example_config = None"
    and "new_server_result w example_config = None"
  using assms
  by (simp_all add: like_example_def mode_options_def passes_validation_iff all_errors_def logLevel_errors_def
      port_errors_def workspace_errors_def
      dockerSocket_errors_def config_errors_def example_world_def example_options_def validLogLevels_def
      normalized_env_def env_writes_def example_config_def or_else_def)

lemma like_example_worlds:
  "like_example example_world"
  "like_example failing_shutdown_world"
  by (simp_all add: like_example_def failing_shutdown_world_def)

section \<open>Health-check mode\<close>

lemma health_check_outcome:
  assumes "passes_validation w opts"
    and "createConfig_result w (normalized_env opts e) = Inr cfg"
    and "logConfigSummaryIfDev_result w cfg = None"
    and "\<not> validate opts"
    and "new_server_result w cfg = None"
    and "\<not> listTools opts"
    and "healthCheck opts"
  shows "fst (main w opts (start e)) =
           Exit (if initialize_result w = None \<and>
                    (\<exists>h. getHealth_result w = Inr h \<and> status h = ''healthy'') \<and>
                    shutdown_result w 0 = None
                 then 0 else 1)"
  using assms
  by (simp add: main_modes modes_run health_check_mode_run failed_def count_list_append
      split: option.splits sum.splits)

text \<open>
  Claim C2, amended. In health-check mode (the options pass validation, the configuration
  and the server are constructed, neither validate nor listTools is set) the process
  exits, and its exit code is 0 exactly when \<open>initialize\<close> returned, \<open>getHealth\<close> returned a
  report whose status is \<^verbatim>\<open>healthy\<close>, and the \<open>shutdown\<close> call that follows the report
  returned; it is 1 in every other case. The claim as worded makes the code 0 for every
  healthy report: the counterexample is a healthy report followed by a \<open>shutdown\<close> that
  throws, where the process exits 1.
\<close>

theorem health_check_exit_code:
  assumes "passes_validation w opts"
    and "createConfig_result w (normalized_env opts e) = Inr cfg"
    and "logConfigSummaryIfDev_result w cfg = None"
    and "\<not> validate opts"
    and "new_server_result w cfg = None"
    and "\<not> listTools opts"
    and "healthCheck opts"
  shows "fst (main w opts (start e)) =
           Exit (if initialize_result w = None \<and>
                    (\<exists>h. getHealth_result w = Inr h \<and> status h = ''healthy'') \<and>
                    shutdown_result w 0 = None
                 then 0 else 1)"
  using assms by (rule health_check_outcome)

theorem health_check_exit_code_witness:
  "fst (main example_world (mode_options False False True) (start Map.empty)) = Exit 0"
proof -
  note su = example_setup [OF like_example_worlds(1)]
  from health_check_exit_code [of example_world "mode_options False False True" Map.empty example_config,
      OF su(1) su(2) su(3) _ su(4)]
  show ?thesis
    by (simp add: mode_options_def example_options_def) (simp add: example_world_def)
qed

theorem health_check_exit_code_counterexample:
  "getHealth_result failing_shutdown_world =
     Inr \<lparr>status = ''healthy'', uptime = Finite 12.5, services = [(''docker'', True)], metrics = None\<rparr> \<and>
   fst (main failing_shutdown_world (mode_options False False True) (start Map.empty)) = Exit 1"
proof -
  note su = example_setup [OF like_example_worlds(2)]
  from health_check_outcome [of failing_shutdown_world "mode_options False False True" Map.empty example_config,
      OF su(1) su(2) su(3) _ su(4)]
  show ?thesis
    by (simp add: mode_options_def example_options_def failing_shutdown_world_def) (simp add: example_world_def)
qed

section \<open>Tool listing\<close>

lemma console_lines_append [simp]: "console_lines (a @ b) = console_lines a @ console_lines b"
  by (simp add: console_lines_def)

lemma console_lines_Cons [simp]:
  "console_lines (ev # evs) = (case ev of Console_log l \<Rightarrow> [l] | _ \<Rightarrow> []) @ console_lines evs"
  by (simp add: console_lines_def)

lemma console_lines_Nil [simp]: "console_lines [] = []"
  by (simp add: console_lines_def)

lemma console_lines_map_Console_log [simp]: "console_lines (map Console_log ls) = ls"
  by (induction ls) simp_all

lemma console_lines_setup [simp]: "console_lines (setup_events opts) = []"
  by (simp add: setup_events_def stat_events_def env_events_def workspace_stats_def dockerSocket_stats_def
      config_stats_def console_lines_def split_def)

lemma console_lines_startup_failed [simp]: "console_lines (startup_failed_events opts err) = []"
  by (simp add: startup_failed_events_def console_lines_def)

lemma count_startup_failed [simp]: "count_list (startup_failed_events opts err) Server_shutdown = 0"
  by (simp add: startup_failed_events_def count_list_0_iff image_iff)

lemma list_tools_outcome:
  assumes "passes_validation w opts"
    and "createConfig_result w (normalized_env opts e) = Inr cfg"
    and "logConfigSummaryIfDev_result w cfg = None"
    and "\<not> validate opts"
    and "new_server_result w cfg = None"
    and "listTools opts"
    and "initialize_result w = None"
    and "listTools_result w = Inr res"
  shows "main w opts (start e) =
     (case listing w res of
        None \<Rightarrow>
          (Exit 1, \<lparr>env = normalized_env opts e,
                    trace = setup_events opts @ Server_new # list_header @
                            startup_failed_events opts (TypeError w)\<rparr>)
      | Some ls \<Rightarrow>
          (case shutdown_result w 0 of
             None \<Rightarrow>
               (Exit 0, \<lparr>env = normalized_env opts e,
                         trace = setup_events opts @ Server_new # list_header @ map Console_log ls @
                                 [Server_shutdown]\<rparr>)
           | Some err \<Rightarrow>
               (Exit 1, \<lparr>env = normalized_env opts e,
                         trace = setup_events opts @ Server_new # list_header @ map Console_log ls @
                                 Server_shutdown # startup_failed_events opts err\<rparr>)))"
  using assms
  by (simp add: main_modes modes_run list_tools_mode_run failed_def count_list_append
      split: option.splits)

text \<open>
  Claim C10, amended. In list-tools mode, when \<open>listTools\<close> resolves to an object whose
  \<open>tools\<close> property is missing or is not an array, the lines printed with \<open>console.log\<close>
  are the header \<^verbatim>\<open>Available tools:\<close> and its separator only, the server's \<open>shutdown\<close> is
  called once, and the process exits 0 when that call returns. When it throws, the
  \<open>catch\<close> clause reports the error and the process exits 1: this is the counterexample to
  the claim as worded, which has the exit code 0 in every case.
\<close>

theorem list_tools_without_array:
  assumes "passes_validation w opts"
    and "createConfig_result w (normalized_env opts e) = Inr cfg"
    and "logConfigSummaryIfDev_result w cfg = None"
    and "\<not> validate opts"
    and "new_server_result w cfg = None"
    and "listTools opts"
    and "initialize_result w = None"
    and "listTools_result w = Inr res"
    and "res = Tools_not_array \<or> res = No_tools_property"
  shows "main w opts (start e) =
     (case shutdown_result w 0 of
        None \<Rightarrow>
          (Exit 0, \<lparr>env = normalized_env opts e,
                    trace = setup_events opts @ Server_new # list_header @ [Server_shutdown]\<rparr>)
      | Some err \<Rightarrow>
          (Exit 1, \<lparr>env = normalized_env opts e,
                    trace = setup_events opts @ Server_new # list_header @
                            Server_shutdown # startup_failed_events opts err\<rparr>)) \<and>
     console_lines (trace (snd (main w opts (start e)))) =
       [''Available tools:'', concat (replicate 60 BOX_DOUBLE_HORIZONTAL)] \<and>
     count_list (trace (snd (main w opts (start e)))) Server_shutdown = 1"
proof -
  from assms(9) have "listing w res = Some []"
    by (auto simp: listing_def)
  with list_tools_outcome [OF assms(1-8)] show ?thesis
    by (simp add: list_header_def count_list_append split: option.splits)
qed

lemma mode_options_simps [simp]:
  "validate (mode_options a b c) = a"
  "listTools (mode_options a b c) = b"
  "healthCheck (mode_options a b c) = c"
  "dev (mode_options a b c) = False"
  "mock (mode_options a b c) = False"
  by (simp_all add: mode_options_def example_options_def)

lemma example_setup_events:
  "setup_events (mode_options a b c) =
     [StatSync ''/work'', StatSync ''/var/run/docker.sock'',
      Env_write ''LOG_LEVEL'' ''info'', Env_write ''WORKSPACE_DIR'' ''/work'',
      Env_write ''DOCKER_SOCKET'' ''/var/run/docker.sock'', Env_write ''K8S_NAMESPACE'' ''default'',
      CreateConfig, LogConfigSummaryIfDev]"
  by (simp add: setup_events_def stat_events_def workspace_stats_def dockerSocket_stats_def config_stats_def
        env_events_def env_writes_def mode_options_def example_options_def)

lemma world_without_tools_simps [simp]:
  "initialize_result world_without_tools = None"
  "listTools_result world_without_tools = Inr No_tools_property"
  "shutdown_result world_without_tools 0 = None"
  by (simp_all add: world_without_tools_def example_world_def)

lemma world_without_tools_failing_shutdown_simps [simp]:
  "initialize_result world_without_tools_failing_shutdown = None"
  "listTools_result world_without_tools_failing_shutdown = Inr No_tools_property"
  "shutdown_result world_without_tools_failing_shutdown 0 = Some (Error ''close failed'' None)"
  by (simp_all add: world_without_tools_failing_shutdown_def example_world_def)

theorem list_tools_without_array_witness:
  "fst (main world_without_tools (mode_options False True False) (start Map.empty)) = Exit 0 \<and>
   trace (snd (main world_without_tools (mode_options False True False) (start Map.empty))) =
     [StatSync ''/work'', StatSync ''/var/run/docker.sock'',
      Env_write ''LOG_LEVEL'' ''info'', Env_write ''WORKSPACE_DIR'' ''/work'',
      Env_write ''DOCKER_SOCKET'' ''/var/run/docker.sock'', Env_write ''K8S_NAMESPACE'' ''default'',
      CreateConfig, LogConfigSummaryIfDev, Server_new,
      Logger_info ''Listing available tools'', Server_initialize, Server_listTools,
      Console_log ''Available tools:'', Console_log (concat (replicate 60 BOX_DOUBLE_HORIZONTAL)),
      Server_shutdown]"
proof -
  have like: "like_example world_without_tools"
    by (simp add: like_example_def world_without_tools_def)
  note su = example_setup [OF like]
  from list_tools_without_array [of world_without_tools "mode_options False True False" Map.empty
        example_config No_tools_property, OF su(1) su(2) su(3) _ su(4), THEN conjunct1]
  show ?thesis
    by (simp add: example_setup_events list_header_def)
qed

theorem list_tools_without_array_counterexample:
  "listTools_result world_without_tools_failing_shutdown = Inr No_tools_property \<and>
   fst (main world_without_tools_failing_shutdown (mode_options False True False) (start Map.empty)) = Exit 1"
proof -
  have like: "like_example world_without_tools_failing_shutdown"
    by (simp add: like_example_def world_without_tools_failing_shutdown_def)
  note su = example_setup [OF like]
  from list_tools_outcome [of world_without_tools_failing_shutdown "mode_options False True False" Map.empty
        example_config No_tools_property, OF su(1) su(2) su(3) _ su(4)]
  show ?thesis
    by (simp add: listing_def)
qed

lemma mset_filter_disjoint:
  "(\<And>x. \<not> (P x \<and> Q x)) \<Longrightarrow> mset (filter P xs) + mset (filter Q xs) = mset (filter (\<lambda>x. P x \<or> Q x) xs)"
  by (induction xs) auto

lemma mset_concat_filter_keys:
  "distinct cs \<Longrightarrow>
   mset (concat (map (\<lambda>c. filter (\<lambda>t. f t = c) xs) cs)) = mset (filter (\<lambda>t. f t \<in> set cs) xs)"
proof (induction cs)
  case Nil
  then show ?case by simp
next
  case (Cons c cs)
  then have "mset (filter (\<lambda>t. f t = c) xs) + mset (filter (\<lambda>t. f t \<in> set cs) xs) =
             mset (filter (\<lambda>t. f t = c \<or> f t \<in> set cs) xs)"
    by (intro mset_filter_disjoint) auto
  with Cons show ?case by simp
qed

lemma mset_groups: "mset (concat (map snd (groups tools))) = mset tools"
proof -
  have "concat (map snd (groups tools)) =
        concat (map (\<lambda>c. filter (\<lambda>t. category_of t = c) tools) (first_seen (map category_of tools)))"
    by (simp add: groups_def comp_def)
  then show ?thesis
    by (simp add: mset_concat_filter_keys)
qed

lemma mset_concat_snd: "mset (concat (map snd ys)) = sum_mset (image_mset (\<lambda>p. mset (snd p)) (mset ys))"
  by (induction ys) auto

lemma mset_Object_entries: "mset (Object_entries obj) = mset obj"
proof -
  have "mset (filter (\<lambda>p. is_array_index (fst p)) obj) + mset (filter (\<lambda>p. \<not> is_array_index (fst p)) obj) =
        mset (filter (\<lambda>p. is_array_index (fst p) \<or> \<not> is_array_index (fst p)) obj)"
    by (rule mset_filter_disjoint) simp
  then show ?thesis
    unfolding Object_entries_def by simp
qed

lemma Object_entries_plain:
  "\<forall>p \<in> set obj. \<not> is_array_index (fst p) \<Longrightarrow> Object_entries obj = obj"
  unfolding Object_entries_def by (simp add: filter_empty_conv filter_id_conv)

lemma grouped_Some:
  "\<forall>t \<in> set tools. category_of t \<notin> set Object_prototype_keys \<Longrightarrow> grouped tools = Some (groups tools)"
  by (simp add: grouped_def list_ex_iff)

lemma list_tools_console:
  assumes "passes_validation w opts"
    and "createConfig_result w (normalized_env opts e) = Inr cfg"
    and "logConfigSummaryIfDev_result w cfg = None"
    and "\<not> validate opts"
    and "new_server_result w cfg = None"
    and "listTools opts"
    and "initialize_result w = None"
    and "listTools_result w = Inr res"
    and "listing w res = Some ls"
  shows "console_lines (trace (snd (main w opts (start e)))) =
           [''Available tools:'', concat (replicate 60 BOX_DOUBLE_HORIZONTAL)] @ ls"
  using list_tools_outcome [OF assms(1-8)] assms(9)
  by (simp add: list_header_def split: option.splits)

text \<open>
  Claim C7, amended. In list-tools mode, when \<open>listTools\<close> resolves to an array of tools of
  which no category (\<^verbatim>\<open>utility\<close> for a tool without one) is the name of a property of
  \<open>Object.prototype\<close>, the lines printed with \<open>console.log\<close> are: the header and its
  separator; for each group, in the order of \<open>Object.entries\<close>, the uppercased category
  and one line for each of its tools; the line \<^verbatim>\<open>Total: N tools available\<close>, with N the
  number of tools returned. The groups are created in first-seen order of the categories,
  each holds the tools of its category in the order returned, and every tool is printed
  exactly once. \<open>Object.entries\<close> keeps the first-seen order when no category is an array
  index. The claim as worded has first-seen order always: the counterexample is the
  categories \<^verbatim>\<open>2\<close> then \<^verbatim>\<open>1\<close>, printed as 1 then 2.
\<close>

theorem list_tools_grouped:
  assumes "passes_validation w opts"
    and "createConfig_result w (normalized_env opts e) = Inr cfg"
    and "logConfigSummaryIfDev_result w cfg = None"
    and "\<not> validate opts"
    and "new_server_result w cfg = None"
    and "listTools opts"
    and "initialize_result w = None"
    and "listTools_result w = Inr (Tools_array tools)"
    and "\<forall>t \<in> set tools. category_of t \<notin> set Object_prototype_keys"
  shows "console_lines (trace (snd (main w opts (start e)))) =
           [''Available tools:'', concat (replicate 60 BOX_DOUBLE_HORIZONTAL)] @
           concat (map (\<lambda>g. (NL @ FILE_FOLDER @ '' '' @ toUpperCase w (fst g)) # map tool_line (snd g))
                       (Object_entries (groups tools))) @
           [NL @ ''Total: '' @ decimal (length tools) @ '' tools available''] \<and>
         map fst (groups tools) = first_seen (map category_of tools) \<and>
         (\<forall>g \<in> set (groups tools). snd g = filter (\<lambda>t. category_of t = fst g) tools) \<and>
         (\<forall>t \<in> set tools. category t = None \<longrightarrow> category_of t = ''utility'') \<and>
         mset (concat (map snd (Object_entries (groups tools)))) = mset tools \<and>
         ((\<forall>t \<in> set tools. \<not> is_array_index (category_of t)) \<longrightarrow>
            Object_entries (groups tools) = groups tools)"
proof -
  have ls: "listing w (Tools_array tools) =
      Some (concat (map (group_lines w) (Object_entries (groups tools))) @ [total_line (length tools)])"
    using assms(9) by (simp add: listing_def grouped_Some)
  have 1: "console_lines (trace (snd (main w opts (start e)))) =
           [''Available tools:'', concat (replicate 60 BOX_DOUBLE_HORIZONTAL)] @
           concat (map (\<lambda>g. (NL @ FILE_FOLDER @ '' '' @ toUpperCase w (fst g)) # map tool_line (snd g))
                       (Object_entries (groups tools))) @
           [NL @ ''Total: '' @ decimal (length tools) @ '' tools available'']"
    using list_tools_console [OF assms(1-8) ls]
    by (simp add: group_lines_def [abs_def] total_line_def)
  have 2: "map fst (groups tools) = first_seen (map category_of tools)"
    by (simp add: groups_def comp_def)
  have 3: "\<forall>g \<in> set (groups tools). snd g = filter (\<lambda>t. category_of t = fst g) tools"
    by (auto simp: groups_def)
  have 4: "\<forall>t \<in> set tools. category t = None \<longrightarrow> category_of t = ''utility''"
    by (simp add: category_of_def or_else_def)
  have "mset (concat (map snd (Object_entries (groups tools)))) = mset (concat (map snd (groups tools)))"
    by (simp only: mset_concat_snd mset_Object_entries)
  then have 5: "mset (concat (map snd (Object_entries (groups tools)))) = mset tools"
    by (simp only: mset_groups)
  have 6: "(\<forall>t \<in> set tools. \<not> is_array_index (category_of t)) \<longrightarrow>
            Object_entries (groups tools) = groups tools"
    by (auto intro!: Object_entries_plain simp: groups_def)
  show ?thesis
    by (intro conjI) (fact 1 2 3 4 5 6)+
qed

lemma example_groups:
  "groups example_tools =
     [(''utility'', [\<lparr>name = ''ping'', description = ''Check the server'', category = Some ''utility''\<rparr>]),
      (''build'', [\<lparr>name = ''build_image'', description = ''Build an image'', category = Some ''build''\<rparr>])]"
  "groups numbered_tools =
     [(''2'', [\<lparr>name = ''scan'', description = ''Scan an image'', category = Some ''2''\<rparr>]),
      (''1'', [\<lparr>name = ''tag'', description = ''Tag an image'', category = Some ''1''\<rparr>])]"
  by (simp_all add: groups_def example_tools_def numbered_tools_def category_of_def or_else_def)

lemma example_grouped:
  "grouped example_tools = Some (groups example_tools)"
  "grouped numbered_tools = Some (groups numbered_tools)"
  by (simp_all add: grouped_def example_tools_def numbered_tools_def category_of_def or_else_def
      Object_prototype_keys_def)

lemma example_array_index:
  "\<not> is_array_index ''utility''" "\<not> is_array_index ''build''" "is_array_index ''1''" "is_array_index ''2''"
  "digits_value ''1'' = 1" "digits_value ''2'' = 2"
  by (simp_all add: is_array_index_def digits_value_def)

lemma example_toUpperCase:
  "toUpperCase w ''utility'' = ''UTILITY''" "toUpperCase w ''build'' = ''BUILD''"
  "toUpperCase w ''1'' = ''1''" "toUpperCase w ''2'' = ''2''"
  by (simp_all add: toUpperCase_def ascii_upper_def)

lemma example_padEnd:
  "padEnd 25 ''ping'' = ''ping                     ''"
  "padEnd 25 ''build_image'' = ''build_image              ''"
  "padEnd 25 ''scan'' = ''scan                     ''"
  "padEnd 25 ''tag'' = ''tag                      ''"
  by (simp_all add: padEnd_def utf16_length_def eval_nat_numeral)

lemma example_decimal: "decimal 2 = ''2''"
  by (simp add: decimal.simps)

lemma example_lengths: "length example_tools = 2" "length numbered_tools = 2"
  by (simp_all add: example_tools_def numbered_tools_def)

lemma example_listing:
  "listing w (Tools_array example_tools) =
     Some [NL @ FILE_FOLDER @ '' UTILITY'',
           ''  '' @ BULLET @ '' ping                      Check the server'',
           NL @ FILE_FOLDER @ '' BUILD'',
           ''  '' @ BULLET @ '' build_image               Build an image'',
           NL @ ''Total: 2 tools available'']"
  by (simp add: listing_def example_grouped example_groups Object_entries_def example_array_index
      group_lines_def tool_line_def total_line_def example_toUpperCase example_padEnd example_decimal example_lengths)

lemma numbered_listing:
  "listing w (Tools_array numbered_tools) =
     Some [NL @ FILE_FOLDER @ '' 1'',
           ''  '' @ BULLET @ '' tag                       Tag an image'',
           NL @ FILE_FOLDER @ '' 2'',
           ''  '' @ BULLET @ '' scan                      Scan an image'',
           NL @ ''Total: 2 tools available'']"
  by (simp add: listing_def example_grouped example_groups Object_entries_def example_array_index
      group_lines_def tool_line_def total_line_def example_toUpperCase example_padEnd example_decimal example_lengths)

lemma example_world_simps [simp]:
  "initialize_result example_world = None"
  "listTools_result example_world = Inr (Tools_array example_tools)"
  "shutdown_result example_world 0 = None"
  by (simp_all add: example_world_def example_tools_def)

lemma world_with_numbered_tools_simps [simp]:
  "initialize_result world_with_numbered_tools = None"
  "listTools_result world_with_numbered_tools = Inr (Tools_array numbered_tools)"
  "shutdown_result world_with_numbered_tools 0 = None"
  by (simp_all add: world_with_numbered_tools_def example_world_def)

lemma example_no_prototype_keys:
  "\<forall>t \<in> set example_tools. category_of t \<notin> set Object_prototype_keys"
  by (simp add: example_tools_def category_of_def or_else_def Object_prototype_keys_def)

theorem list_tools_grouped_witness:
  "console_lines (trace (snd (main example_world (mode_options False True False) (start Map.empty)))) =
     [''Available tools:'', concat (replicate 60 BOX_DOUBLE_HORIZONTAL),
      NL @ FILE_FOLDER @ '' UTILITY'',
      ''  '' @ BULLET @ '' ping                      Check the server'',
      NL @ FILE_FOLDER @ '' BUILD'',
      ''  '' @ BULLET @ '' build_image               Build an image'',
      NL @ ''Total: 2 tools available'']"
proof -
  note su = example_setup [OF like_example_worlds(1)]
  from list_tools_grouped [of example_world "mode_options False True False" Map.empty example_config
      example_tools, OF su(1) su(2) su(3) _ su(4) _ _ _ example_no_prototype_keys, THEN conjunct1]
  show ?thesis
    by (simp add: example_groups Object_entries_def example_array_index tool_line_def example_toUpperCase
        example_padEnd example_decimal example_lengths)
qed

theorem list_tools_grouped_counterexample:
  "first_seen (map category_of numbered_tools) = [''2'', ''1''] \<and>
   console_lines (trace (snd (main world_with_numbered_tools (mode_options False True False) (start Map.empty)))) =
     [''Available tools:'', concat (replicate 60 BOX_DOUBLE_HORIZONTAL),
      NL @ FILE_FOLDER @ '' 1'',
      ''  '' @ BULLET @ '' tag                       Tag an image'',
      NL @ FILE_FOLDER @ '' 2'',
      ''  '' @ BULLET @ '' scan                      Scan an image'',
      NL @ ''Total: 2 tools available'']"
proof -
  have like: "like_example world_with_numbered_tools"
    by (simp add: like_example_def world_with_numbered_tools_def)
  note su = example_setup [OF like]
  have "first_seen (map category_of numbered_tools) = [''2'', ''1'']"
    by (simp add: numbered_tools_def category_of_def or_else_def)
  moreover
  from list_tools_console [of world_with_numbered_tools "mode_options False True False" Map.empty example_config
      "Tools_array numbered_tools", OF su(1) su(2) su(3) _ su(4) _ _ _ numbered_listing]
  have "console_lines (trace (snd (main world_with_numbered_tools (mode_options False True False) (start Map.empty)))) =
     [''Available tools:'', concat (replicate 60 BOX_DOUBLE_HORIZONTAL),
      NL @ FILE_FOLDER @ '' 1'',
      ''  '' @ BULLET @ '' tag                       Tag an image'',
      NL @ FILE_FOLDER @ '' 2'',
      ''  '' @ BULLET @ '' scan                      Scan an image'',
      NL @ ''Total: 2 tools available'']"
    by simp
  ultimately show ?thesis by (rule conjI)
qed

section \<open>Mode priority\<close>

lemmas glyph_defs = NL_def BULLET_def CROSS_MARK_def CHECK_MARK_def WARNING_SIGN_def WHEEL_OF_DHARMA_def
  BOX_DOUBLE_HORIZONTAL_def MAGNIFYING_GLASS_def CLIPBOARD_def SPOUTING_WHALE_def FILE_FOLDER_def HOSPITAL_def
  BAR_CHART_def ROCKET_def PACKAGE_def HOUSE_BUILDING_def ROBOT_FACE_def WRENCH_def ELECTRIC_PLUG_def
  OCTAGONAL_SIGN_def LIGHT_BULB_def HAMMER_AND_WRENCH_def ROUND_PUSHPIN_def

lemma modes_entered_append [simp]: "modes_entered (a @ b) = modes_entered a @ modes_entered b"
  by (simp add: modes_entered_def)

lemma modes_entered_Cons [simp]: "modes_entered (ev # evs) = mode_entry ev @ modes_entered evs"
  by (simp add: modes_entered_def)

lemma modes_entered_Nil [simp]: "modes_entered [] = []"
  by (simp add: modes_entered_def)

lemma modes_entered_quiet: "\<forall>ev \<in> set evs. mode_entry ev = [] \<Longrightarrow> modes_entered evs = []"
  by (induction evs) simp_all

lemma not_marker:
  "CHR '' '' # l \<noteq> validate_marker"
  "NL @ l \<noteq> validate_marker"
  "CHR ''S'' # l \<noteq> validate_marker"
  "CHR ''U'' # l \<noteq> validate_marker"
  "CHR ''A'' # l \<noteq> validate_marker"
  "CLIPBOARD @ l \<noteq> validate_marker"
  "HOSPITAL @ l \<noteq> validate_marker"
  "ROCKET @ l \<noteq> validate_marker"
  "PACKAGE @ l \<noteq> validate_marker"
  "HOUSE_BUILDING @ l \<noteq> validate_marker"
  "BAR_CHART @ l \<noteq> validate_marker"
  "ROBOT_FACE @ l \<noteq> validate_marker"
  "WRENCH @ l \<noteq> validate_marker"
  "CHECK_MARK @ l \<noteq> validate_marker"
  "ELECTRIC_PLUG @ l \<noteq> validate_marker"
  "BOX_DOUBLE_HORIZONTAL @ l \<noteq> validate_marker"
  by (simp_all add: validate_marker_def glyph_defs)

lemma modes_entered_setup [simp]: "modes_entered (setup_events opts) = []"
  by (rule modes_entered_quiet)
    (auto simp: setup_events_def stat_events_def env_events_def workspace_stats_def dockerSocket_stats_def
      config_stats_def)

lemma modes_entered_startup_failed [simp]: "modes_entered (startup_failed_events opts err) = []"
  by (rule modes_entered_quiet) (auto simp: startup_failed_events_def)

lemma modes_entered_validate [simp]: "modes_entered (validate_events w opts cfg env0) = [Validate]"
  unfolding validate_events_def
  by (simp add: not_marker split: option.splits)

lemmas marker_not = not_marker [symmetric]

lemma separator_not_marker:
  "concat (replicate 60 BOX_DOUBLE_HORIZONTAL) \<noteq> validate_marker"
  "concat (replicate 40 BOX_DOUBLE_HORIZONTAL) \<noteq> validate_marker"
proof -
  have "replicate 60 BOX_DOUBLE_HORIZONTAL = BOX_DOUBLE_HORIZONTAL # replicate 59 BOX_DOUBLE_HORIZONTAL"
    and "replicate 40 BOX_DOUBLE_HORIZONTAL = BOX_DOUBLE_HORIZONTAL # replicate 39 BOX_DOUBLE_HORIZONTAL"
    by (simp_all only: replicate_Suc [symmetric]) simp_all
  then show "concat (replicate 60 BOX_DOUBLE_HORIZONTAL) \<noteq> validate_marker"
    and "concat (replicate 40 BOX_DOUBLE_HORIZONTAL) \<noteq> validate_marker"
    by (simp_all only: concat.simps not_marker not_False_eq_True)
qed

lemma modes_entered_list_header [simp]:
  "modes_entered list_header = [ListTools]"
  "modes_entered (take 2 list_header) = [ListTools]"
  "modes_entered (take 3 list_header) = [ListTools]"
  by (simp_all add: list_header_def not_marker separator_not_marker)

lemma group_lines_not_marker: "validate_marker \<notin> set (group_lines w g)"
  by (auto simp: group_lines_def tool_line_def not_marker marker_not)

lemma modes_entered_listing [simp]:
  assumes "listing w res = Some ls"
  shows "modes_entered (map Console_log ls) = []"
proof -
  have "\<forall>l \<in> set ls. l \<noteq> validate_marker"
    using assms
    by (cases res) (auto simp: listing_def total_line_def not_marker marker_not group_lines_not_marker split: option.splits)
  then show ?thesis
    by (intro modes_entered_quiet) auto
qed

lemma modes_entered_health_header [simp]:
  "modes_entered health_header = [HealthCheck]"
  "modes_entered (take 2 health_header) = [HealthCheck]"
  by (simp_all add: health_header_def)

lemma modes_entered_health_lines [simp]: "modes_entered (map Console_log (health_lines w h)) = []"
proof -
  have "\<forall>l \<in> set (health_lines w h). l \<noteq> validate_marker"
    by (cases "metrics h") (auto simp: health_lines_def not_marker marker_not separator_not_marker separator_not_marker [symmetric])
  then show ?thesis
    by (intro modes_entered_quiet) auto
qed

lemma modes_entered_run [simp]:
  "modes_entered (run_banner w opts cfg) = [Run]"
  "modes_entered run_started = []"
  by (simp_all add: run_banner_def run_started_def not_marker)

lemma list_tools_mode_enters:
  assumes "modes_entered (trace s) = []"
  shows "modes_entered (trace (snd (failed opts (list_tools_mode w s)))) = [ListTools]"
  using assms
  by (simp add: list_tools_mode_run failed_def split: option.splits sum.splits)

lemma health_check_mode_enters:
  assumes "modes_entered (trace s) = []"
  shows "modes_entered (trace (snd (failed opts (health_check_mode w s)))) = [HealthCheck]"
  using assms
  by (simp add: health_check_mode_run failed_def split: option.splits sum.splits)

lemma run_mode_enters:
  assumes "modes_entered (trace s) = []"
  shows "modes_entered (trace (snd (failed opts (run_mode w opts cfg s)))) = [Run]"
  using assms
  by (simp add: run_mode_finish finish_run failed_def split: option.splits)

lemma server_event_setup [simp]: "filter server_event (setup_events opts) = []"
  by (auto simp: setup_events_def stat_events_def env_events_def workspace_stats_def dockerSocket_stats_def
      config_stats_def filter_empty_conv)

lemma server_event_validate [simp]: "filter server_event (validate_events w opts cfg env0) = []"
  unfolding validate_events_def
  by (simp split: option.splits)

lemma summary_printed:
  "Console_log (CLIPBOARD @ '' Configuration Summary:'') \<in> set (validate_events w opts cfg env0)"
  unfolding validate_events_def by simp

lemma validate_mode_outcome:
  assumes "passes_validation w opts"
    and "createConfig_result w (normalized_env opts e) = Inr cfg"
    and "logConfigSummaryIfDev_result w cfg = None"
    and "validate opts"
  shows "main w opts (start e) =
           (Exit 0, \<lparr>env = normalized_env opts e,
                     trace = setup_events opts @ validate_events w opts cfg (normalized_env opts e)\<rparr>)"
  using assms by (simp add: main_dispatch dispatch_run failed_def)

lemma modes_entered_main:
  assumes "passes_validation w opts"
  shows "modes_entered (trace (snd (main w opts (start e)))) = [] \<or>
         modes_entered (trace (snd (main w opts (start e)))) = [selected_mode opts]"
proof (cases "createConfig_result w (normalized_env opts e)")
  case (Inl err)
  with assms show ?thesis
    by (simp add: main_run passes_validation_iff configured_run start_def failed_def normalized_env_def
        setup_events_def [symmetric] modes_entered_setup [unfolded setup_events_def, simplified])
next
  case (Inr cfg)
  show ?thesis
  proof (cases "logConfigSummaryIfDev_result w cfg")
    case (Some err)
    with assms Inr show ?thesis
      by (simp add: main_run passes_validation_iff configured_run start_def failed_def normalized_env_def
          modes_entered_setup [unfolded setup_events_def, simplified])
  next
    case None
    note su = assms Inr None
    show ?thesis
    proof (cases "validate opts")
      case True
      with su show ?thesis
        by (simp add: validate_mode_outcome selected_mode_def)
    next
      case False
      show ?thesis
      proof (cases "new_server_result w cfg")
        case (Some err)
        with su False show ?thesis
          by (simp add: main_dispatch dispatch_run failed_def)
      next
        case None
        have quiet: "modes_entered (trace \<lparr>env = normalized_env opts e, trace = setup_events opts @ [Server_new]\<rparr>) = []"
          by simp
        have m: "main w opts (start e) =
            failed opts (modes w opts cfg \<lparr>env = normalized_env opts e, trace = setup_events opts @ [Server_new]\<rparr>)"
          using su False None by (rule main_modes)
        show ?thesis
          unfolding m modes_run selected_mode_def
          using False list_tools_mode_enters [OF quiet] health_check_mode_enters [OF quiet]
            run_mode_enters [OF quiet]
          by simp
      qed
    qed
  qed
qed

lemma modes_entered_exactly:
  assumes "passes_validation w opts"
    and "createConfig_result w (normalized_env opts e) = Inr cfg"
    and "logConfigSummaryIfDev_result w cfg = None"
    and "validate opts \<or> new_server_result w cfg = None"
  shows "modes_entered (trace (snd (main w opts (start e)))) = [selected_mode opts]"
proof (cases "validate opts")
  case True
  with assms show ?thesis
    by (simp add: validate_mode_outcome selected_mode_def)
next
  case False
  with assms(4) have new: "new_server_result w cfg = None"
    by simp
  have quiet: "modes_entered (trace \<lparr>env = normalized_env opts e, trace = setup_events opts @ [Server_new]\<rparr>) = []"
    by simp
  have m: "main w opts (start e) =
      failed opts (modes w opts cfg \<lparr>env = normalized_env opts e, trace = setup_events opts @ [Server_new]\<rparr>)"
    using assms(1-3) False new by (rule main_modes)
  show ?thesis
    unfolding m modes_run selected_mode_def
    using False list_tools_mode_enters [OF quiet] health_check_mode_enters [OF quiet]
      run_mode_enters [OF quiet]
    by simp
qed

lemma main_createConfig_throws:
  assumes "passes_validation w opts"
    and "createConfig_result w (normalized_env opts e) = Inl err"
  shows "main w opts (start e) =
           (Exit 1, \<lparr>env = normalized_env opts e,
                     trace = stat_events opts @ env_events opts @ CreateConfig # startup_failed_events opts err\<rparr>)"
  using assms
  by (simp add: main_run passes_validation_iff configured_run start_def failed_def normalized_env_def)

lemma main_logConfigSummaryIfDev_throws:
  assumes "passes_validation w opts"
    and "createConfig_result w (normalized_env opts e) = Inr cfg"
    and "logConfigSummaryIfDev_result w cfg = Some err"
  shows "main w opts (start e) =
           (Exit 1, \<lparr>env = normalized_env opts e,
                     trace = setup_events opts @ startup_failed_events opts err\<rparr>)"
  using assms
  by (simp add: main_run passes_validation_iff configured_run start_def failed_def normalized_env_def
      setup_events_def)

lemma main_new_server_throws:
  assumes "passes_validation w opts"
    and "createConfig_result w (normalized_env opts e) = Inr cfg"
    and "logConfigSummaryIfDev_result w cfg = None"
    and "\<not> validate opts"
    and "new_server_result w cfg = Some err"
  shows "main w opts (start e) =
           (Exit 1, \<lparr>env = normalized_env opts e,
                     trace = setup_events opts @ Server_new # startup_failed_events opts err\<rparr>)"
  using assms
  by (simp add: main_dispatch dispatch_run failed_def)

lemma modes_entered_stats_env [simp]:
  "modes_entered (stat_events opts) = []"
  "modes_entered (env_events opts) = []"
  using modes_entered_setup [of opts] by (simp_all add: setup_events_def)

lemma console_lines_stats_env [simp]:
  "console_lines (stat_events opts) = []"
  "console_lines (env_events opts) = []"
  using console_lines_setup [of opts] by (simp_all add: setup_events_def)

lemma no_mode_reached:
  assumes "passes_validation w opts" and "\<not> mode_reached w opts e"
  shows "modes_entered (trace (snd (main w opts (start e)))) = [] \<and> fst (main w opts (start e)) = Exit 1"
proof (cases "createConfig_result w (normalized_env opts e)")
  case (Inl err)
  from main_createConfig_throws [OF assms(1) Inl] show ?thesis
    by simp
next
  case (Inr cfg)
  show ?thesis
  proof (cases "logConfigSummaryIfDev_result w cfg")
    case (Some err)
    from main_logConfigSummaryIfDev_throws [OF assms(1) Inr Some] show ?thesis
      by simp
  next
    case None
    with assms(2) Inr obtain err where v: "\<not> validate opts" and new: "new_server_result w cfg = Some err"
      by (auto simp: mode_reached_def)
    from main_new_server_throws [OF assms(1) Inr None v new] show ?thesis
      by simp
  qed
qed

lemma one_mode_reached:
  assumes "passes_validation w opts" and "mode_reached w opts e"
  shows "modes_entered (trace (snd (main w opts (start e)))) = [selected_mode opts]"
proof -
  from assms(2) obtain cfg where "createConfig_result w (normalized_env opts e) = Inr cfg"
    and "logConfigSummaryIfDev_result w cfg = None"
    and "validate opts \<or> new_server_result w cfg = None"
    by (auto simp: mode_reached_def split: sum.splits)
  with assms(1) show ?thesis
    by (rule modes_entered_exactly)
qed

lemma passes_validation_like_example:
  assumes "statSync_result w = statSync_result example_world"
  shows "passes_validation w (mode_options a b c)"
  using assms
  by (simp add: passes_validation_iff all_errors_def logLevel_errors_def port_errors_def workspace_errors_def
      dockerSocket_errors_def config_errors_def example_world_def mode_options_def example_options_def
      validLogLevels_def)

text \<open>
  Claim C1, amended. For every option set that passes validation, \<open>main\<close> enters at most
  one mode, and only the one the priority validate, list-tools, health-check, run selects.
  It enters that mode exactly when the setup before the modes completes (\<open>createConfig\<close> and
  \<open>logConfigSummaryIfDev\<close> return and, unless validate is set, the server's constructor
  returns); when the setup throws, no mode is entered and the process exits 1. With
  validate set and the configuration built, whatever the other flags, the run is that of
  validate mode alone: it prints the configuration summary, exits 0, and performs no
  operation on the collaborator server. The claim as worded has exactly one mode for
  every validated option set: the counterexample is a \<open>createConfig\<close> that throws, with
  validate and listTools both set, where no mode is entered and the process exits 1.
\<close>

theorem mode_priority:
  assumes "passes_validation w opts"
  shows "modes_entered (trace (snd (main w opts (start e)))) =
           (if mode_reached w opts e then [selected_mode opts] else []) \<and>
         (\<not> mode_reached w opts e \<longrightarrow> fst (main w opts (start e)) = Exit 1) \<and>
         (createConfig_result w (normalized_env opts e) = Inr cfg \<and>
          logConfigSummaryIfDev_result w cfg = None \<and> validate opts \<longrightarrow>
            main w opts (start e) =
              (Exit 0, \<lparr>env = normalized_env opts e,
                        trace = setup_events opts @ validate_events w opts cfg (normalized_env opts e)\<rparr>) \<and>
            Console_log (CLIPBOARD @ '' Configuration Summary:'') \<in> set (trace (snd (main w opts (start e)))) \<and>
            filter server_event (trace (snd (main w opts (start e)))) = [])"
proof (intro conjI impI)
  show "modes_entered (trace (snd (main w opts (start e)))) =
          (if mode_reached w opts e then [selected_mode opts] else [])"
    using one_mode_reached [OF assms, of e] no_mode_reached [OF assms, of e] by simp
next
  assume "\<not> mode_reached w opts e"
  with assms show "fst (main w opts (start e)) = Exit 1"
    by (simp add: no_mode_reached)
next
  assume a: "createConfig_result w (normalized_env opts e) = Inr cfg \<and>
          logConfigSummaryIfDev_result w cfg = None \<and> validate opts"
  then have c1: "createConfig_result w (normalized_env opts e) = Inr cfg"
    and c2: "logConfigSummaryIfDev_result w cfg = None"
    and c3: "validate opts"
    by simp_all
  from assms c1 c2 c3 have m: "main w opts (start e) =
      (Exit 0, \<lparr>env = normalized_env opts e,
                trace = setup_events opts @ validate_events w opts cfg (normalized_env opts e)\<rparr>)"
    by (rule validate_mode_outcome)
  show "main w opts (start e) =
      (Exit 0, \<lparr>env = normalized_env opts e,
                trace = setup_events opts @ validate_events w opts cfg (normalized_env opts e)\<rparr>)"
    by (fact m)
  show "Console_log (CLIPBOARD @ '' Configuration Summary:'') \<in> set (trace (snd (main w opts (start e))))"
    unfolding m using summary_printed by simp
  show "filter server_event (trace (snd (main w opts (start e)))) = []"
    unfolding m by simp
qed

theorem mode_priority_witness:
  "(validate (mode_options True True False) \<and> listTools (mode_options True True False) \<and>
    mode_reached example_world (mode_options True True False) Map.empty \<and>
    modes_entered (trace (snd (main example_world (mode_options True True False) (start Map.empty)))) = [Validate] \<and>
    fst (main example_world (mode_options True True False) (start Map.empty)) = Exit 0 \<and>
    filter server_event (trace (snd (main example_world (mode_options True True False) (start Map.empty)))) = []) \<and>
   (listTools (mode_options False True False) \<and>
    \<not> mode_reached world_without_server (mode_options False True False) Map.empty \<and>
    modes_entered (trace (snd (main world_without_server (mode_options False True False) (start Map.empty)))) = [] \<and>
    fst (main world_without_server (mode_options False True False) (start Map.empty)) = Exit 1)"
proof -
  note su = example_setup [OF like_example_worlds(1)]
  have r: "mode_reached example_world (mode_options True True False) Map.empty"
    using su(2) su(3) by (simp add: mode_reached_def)
  note mp = mode_priority [of example_world "mode_options True True False" Map.empty example_config, OF su(1)]
  have p: "passes_validation world_without_server (mode_options False True False)"
    by (rule passes_validation_like_example) (simp add: world_without_server_def)
  have n: "\<not> mode_reached world_without_server (mode_options False True False) Map.empty"
    by (simp add: mode_reached_def world_without_server_def example_world_def)
  note mn = mode_priority [of world_without_server "mode_options False True False" Map.empty example_config, OF p]
  from mp [THEN conjunct1] mp [THEN conjunct2, THEN conjunct2] su(2) su(3) r
    mn [THEN conjunct1] mn [THEN conjunct2, THEN conjunct1] n
  show ?thesis
    by (simp add: selected_mode_def)
qed

theorem mode_priority_counterexample:
  "passes_validation world_without_config (mode_options True True False) \<and>
   validate (mode_options True True False) \<and> listTools (mode_options True True False) \<and>
   fst (main world_without_config (mode_options True True False) (start Map.empty)) = Exit 1 \<and>
   modes_entered (trace (snd (main world_without_config (mode_options True True False) (start Map.empty)))) = [] \<and>
   console_lines (trace (snd (main world_without_config (mode_options True True False) (start Map.empty)))) = []"
proof -
  have p: "passes_validation world_without_config (mode_options True True False)"
    by (rule passes_validation_like_example) (simp add: world_without_config_def)
  have c: "createConfig_result world_without_config (normalized_env (mode_options True True False) Map.empty) =
      Inl (Error ''Invalid configuration'' None)"
    by (simp add: world_without_config_def)
  from main_createConfig_throws [OF p c] p show ?thesis
    by simp
qed

section \<open>Termination signals\<close>

lemma count_pieces [simp]:
  "count_list (stat_events opts) Server_shutdown = 0"
  "count_list (env_events opts) Server_shutdown = 0"
  "count_list (invalid_report errs) Server_shutdown = 0"
  "count_list list_header Server_shutdown = 0"
  "count_list (take n list_header) Server_shutdown = 0"
  "count_list health_header Server_shutdown = 0"
  "count_list (take n health_header) Server_shutdown = 0"
  "count_list (run_banner w opts cfg) Server_shutdown = 0"
  "count_list run_started Server_shutdown = 0"
  by (auto simp: count_list_0_iff stat_events_def env_events_def workspace_stats_def dockerSocket_stats_def
      config_stats_def invalid_report_def list_header_def health_header_def run_banner_def run_started_def
      dest: in_set_takeD)

lemma count_validate_events [simp]: "count_list (validate_events w opts cfg env0) Server_shutdown = 0"
  unfolding validate_events_def by (simp add: count_list_append split: option.splits)

lemma at_most_once_failed:
  assumes "count_list (trace s) Server_shutdown = 0" and "r = Throw err \<or> r = Exit c"
  shows "at_most_once (failed opts (r, s))"
  using assms by (auto simp: at_most_once_def failed_def count_list_append)

lemma at_most_once_modes:
  assumes "count_list (trace s) Server_shutdown = 0"
  shows "at_most_once (failed opts (modes w opts cfg s))"
  using assms
  by (simp add: modes_run list_tools_mode_run health_check_mode_run run_mode_finish finish_run
      at_most_once_def failed_def count_list_append split: option.splits sum.splits)

lemma at_most_once_main: "at_most_once (main w opts (start e))"
proof (cases "all_errors w opts = []")
  case False
  then show ?thesis
    by (simp add: main_run at_most_once_def start_def count_list_append)
next
  case True
  let ?s = "\<lparr>env = apply_writes (env_writes opts) e, trace = stat_events opts @ env_events opts\<rparr>"
  have m: "main w opts (start e) = failed opts (configured w opts ?s)"
    using True by (simp add: main_run start_def)
  show ?thesis
  proof (cases "createConfig_result w (apply_writes (env_writes opts) e)")
    case (Inl err)
    then show ?thesis
      unfolding m by (simp add: configured_run at_most_once_failed count_list_append)
  next
    case (Inr cfg)
    show ?thesis
    proof (cases "logConfigSummaryIfDev_result w cfg")
      case (Some err)
      with Inr show ?thesis
        unfolding m by (simp add: configured_run at_most_once_failed count_list_append)
    next
      case None
      show ?thesis
      proof (cases "validate opts")
        case True
        with Inr None show ?thesis
          unfolding m
          by (simp add: configured_run dispatch_run at_most_once_def failed_def count_list_append)
      next
        case False
        show ?thesis
        proof (cases "new_server_result w cfg")
          case (Some err)
          with Inr None False show ?thesis
            unfolding m by (simp add: configured_run dispatch_run at_most_once_failed count_list_append)
        next
          case new: None
          have "at_most_once (failed opts (modes w opts cfg
                  (?s\<lparr>trace := trace ?s @ [CreateConfig, LogConfigSummaryIfDev, Server_new]\<rparr>)))"
            by (rule at_most_once_modes) (simp add: count_list_append)
          with Inr None False new show ?thesis
            unfolding m by (simp add: configured_run dispatch_run)
        qed
      qed
    qed
  qed
qed

lemma at_most_once_deliver:
  assumes "at_most_once r"
  shows "at_most_once (deliver w sig r)"
proof (cases r)
  case (Pair out s)
  with assms show ?thesis
    by (cases out)
      (auto simp: at_most_once_def deliver_def shutdown_run shutdown_events_def count_list_append
        split: option.splits)
qed

lemma at_most_once_run: "at_most_once (run w opts sigs (start e))"
proof -
  have "at_most_once r \<Longrightarrow> at_most_once (foldl (\<lambda>r sig. deliver w sig r) r sigs)" for r
    by (induction sigs arbitrary: r) (simp_all add: at_most_once_deliver)
  then show ?thesis
    unfolding run_def using at_most_once_main by blast
qed

lemma deliver_exits: "\<exists>c. fst (deliver w sig (Normal (), s)) = Exit c"
  by (simp add: deliver_def shutdown_run)

lemma deliver_exited: "deliver w sig (Exit c, s) = (Exit c, s)"
  by (simp add: deliver_def)

text \<open>
  Claim C3. The signal handler is idempotent. Delivered to a running process, a
  termination signal ends the process (both branches of the handler exit), so a second
  signal changes nothing: the handler is not run again, the server's \<open>shutdown\<close> is not
  called again, and no second error is raised. Two signals in sequence add at most one
  call of \<open>shutdown\<close>; and over the life of a process, from the start of \<open>main\<close> through any
  sequence of signals, \<open>shutdown\<close> is called at most once.
\<close>

theorem signal_shutdown_idempotent:
  "(\<exists>c. fst (deliver w sig1 (Normal (), s)) = Exit c) \<and>
   deliver w sig2 (deliver w sig1 (Normal (), s)) = deliver w sig1 (Normal (), s) \<and>
   count_list (trace (snd (deliver w sig2 (deliver w sig1 (Normal (), s))))) Server_shutdown
     \<le> count_list (trace s) Server_shutdown + 1 \<and>
   count_list (trace (snd (run w opts sigs (start e)))) Server_shutdown \<le> 1"
proof -
  obtain c s' where d: "deliver w sig1 (Normal (), s) = (Exit c, s')"
    using deliver_exits [of w sig1 s] by (cases "deliver w sig1 (Normal (), s)") auto
  have 3: "count_list (trace (snd (deliver w sig1 (Normal (), s)))) Server_shutdown
     \<le> count_list (trace s) Server_shutdown + 1"
    by (simp add: deliver_def shutdown_run shutdown_events_def count_list_append split: option.splits)
  have 4: "count_list (trace (snd (run w opts sigs (start e)))) Server_shutdown \<le> 1"
    using at_most_once_run [of w opts sigs e] by (simp add: at_most_once_def)
  from d 3 4 show ?thesis
    by (simp add: deliver_exited)
qed

end
